theory Spec2Isabelle
  imports Complex_Main "HOL-Library.Product_Lexorder" "HOL-Library.Multiset"
begin

section \<open>JavaScript values\<close>

text \<open>
  The axis conversion module (src/plots/cartesian/set_convert.js) works on untyped
  JavaScript values. Numbers are modelled as real numbers extended with the three
  non-finite values of an IEEE double; rounding and overflow of doubles are outside the
  model: every sum, product and quotient below is the exact one, where the program
  rounds it to a double. Objects used as dictionaries are finite maps from property
  keys (strings) to values, together with the members they inherit from
  \<^verbatim>\<open>Object.prototype\<close>. Booleans, typed arrays and \<^verbatim>\<open>Date\<close> objects are not among
  the modelled values.
\<close>

datatype jsnum = Fin real | PInf | NInf | NaN

datatype jsval =
  JUndefined | JNull | JNum jsnum | JStr string | JArr "jsval list" | JObj string

text \<open>
  \<open>JObj k\<close> is the member \<^verbatim>\<open>k\<close> of \<^verbatim>\<open>Object.prototype\<close>, a function or an object.
  An object literal \<^verbatim>\<open>{}\<close> inherits these members, so reading \<^verbatim>\<open>obj[k]\<close> gives
  such a value for a key the object does not have itself. It arises from such a
  reading only and is not among the data of a trace.
\<close>

text \<open>
  The parts of the JavaScript runtime and of the modules required by set_convert.js
  (\<^verbatim>\<open>fast-isnumeric\<close>, \<^verbatim>\<open>../../lib\<close>, \<^verbatim>\<open>../../constants/numerical\<close>) whose
  code is not part of the shown source are parameters of the model.
\<close>

record lib =
  str_isNumeric :: "string \<Rightarrow> bool"
    \<comment> \<open>fast-isnumeric on a string\<close>
  str_toNumber :: "string \<Rightarrow> jsnum"
    \<comment> \<open>\<^verbatim>\<open>Number(s)\<close> on a string\<close>
  num2str :: "jsnum \<Rightarrow> string"
    \<comment> \<open>\<^verbatim>\<open>String(n)\<close> on a number, as used for property keys\<close>
  obj2str :: "string \<Rightarrow> string"
    \<comment> \<open>\<^verbatim>\<open>String(o)\<close> on the member of \<^verbatim>\<open>Object.prototype\<close> of that name\<close>
  FP_SAFE :: real
  LOG_CLIP :: real
  cleanNumber :: "jsval \<Rightarrow> jsval"
  ensureNumber :: "jsval \<Rightarrow> jsval"
  dateTime2ms :: "jsval \<Rightarrow> jsval \<Rightarrow> jsval"
    \<comment> \<open>\<^verbatim>\<open>Lib.dateTime2ms(v, calendar)\<close>\<close>
  date2ms :: "jsnum \<Rightarrow> jsval"
    \<comment> \<open>\<^verbatim>\<open>Lib.dateTime2ms(new Date(ms))\<close>\<close>
  ms2DateTime :: "jsval \<Rightarrow> jsval \<Rightarrow> jsval \<Rightarrow> jsval"
  minRowLength :: "jsval \<Rightarrow> nat"
  cleanDate :: "jsval \<Rightarrow> jsval \<Rightarrow> jsval"
    \<comment> \<open>\<^verbatim>\<open>Lib.cleanDate(v, BADNUM, calendar)\<close>\<close>
  isDateTime :: "jsval \<Rightarrow> jsval \<Rightarrow> bool"
  dfltRangeDate :: "jsval \<Rightarrow> jsval list"
    \<comment> \<open>\<^verbatim>\<open>Lib.dfltRange(calendar)\<close>\<close>
  MIN_MS :: real
  MAX_MS :: real
  DFLTRANGEX :: "jsval list"
  DFLTRANGEY :: "jsval list"

text \<open>
  Modelled from the spec: \<^verbatim>\<open>constants/numerical.js\<close> is not part of the shown source.
  \<^verbatim>\<open>BADNUM\<close> is a distinguished sentinel that is not a number and not \<^verbatim>\<open>NaN\<close>.
\<close>

definition BADNUM :: jsval where
  "BADNUM = JUndefined"

text \<open>\<^verbatim>\<open>isValidCategory(v)\<close>: \<^verbatim>\<open>v !== null && v !== undefined\<close>.\<close>

fun isValidCategory :: "jsval \<Rightarrow> bool" where
  "isValidCategory JNull = False"
| "isValidCategory JUndefined = False"
| "isValidCategory _ = True"

subsection \<open>Property keys\<close>

text \<open>
  \<^verbatim>\<open>obj[v]\<close> converts \<^verbatim>\<open>v\<close> to a string. An array is joined with commas, its
  \<^verbatim>\<open>null\<close> and \<^verbatim>\<open>undefined\<close> elements giving the empty string.
\<close>

fun join_comma :: "string list \<Rightarrow> string" where
  "join_comma [] = []"
| "join_comma [s] = s"
| "join_comma (s # t # ss) = s @ '','' @ join_comma (t # ss)"

fun toKey :: "lib \<Rightarrow> jsval \<Rightarrow> string"
  and elemKey :: "lib \<Rightarrow> jsval \<Rightarrow> string" where
  "toKey L JUndefined = ''undefined''"
| "toKey L JNull = ''null''"
| "toKey L (JNum n) = num2str L n"
| "toKey L (JStr s) = s"
| "toKey L (JArr xs) = join_comma (map (elemKey L) xs)"
| "toKey L (JObj k) = obj2str L k"
| "elemKey L JUndefined = []"
| "elemKey L JNull = []"
| "elemKey L (JNum n) = num2str L n"
| "elemKey L (JStr s) = s"
| "elemKey L (JArr xs) = join_comma (map (elemKey L) xs)"
| "elemKey L (JObj k) = obj2str L k"

subsection \<open>Object literals as dictionaries\<close>

text \<open>The names of the members of \<^verbatim>\<open>Object.prototype\<close>.\<close>

definition protoKeys :: "string list" where
  "protoKeys =
     [''constructor'', ''hasOwnProperty'', ''isPrototypeOf'', ''propertyIsEnumerable'',
      ''toLocaleString'', ''toString'', ''valueOf'', ''__defineGetter__'',
      ''__defineSetter__'', ''__lookupGetter__'', ''__lookupSetter__'', ''__proto__'']"

text \<open>
  \<^verbatim>\<open>obj[k]\<close> on an object that started as \<^verbatim>\<open>{}\<close>: its own property, else the
  inherited member, else \<^verbatim>\<open>undefined\<close>. \<^verbatim>\<open>k in obj\<close> holds for own and inherited
  names alike.
\<close>

definition obj_get :: "(string \<rightharpoonup> jsval) \<Rightarrow> string \<Rightarrow> jsval" where
  "obj_get m k =
     (case m k of
        Some v \<Rightarrow> v
      | None \<Rightarrow> if k \<in> set protoKeys then JObj k else JUndefined)"

definition obj_in :: "string \<Rightarrow> (string \<rightharpoonup> 'a) \<Rightarrow> bool" where
  "obj_in k m \<longleftrightarrow> m k \<noteq> None \<or> k \<in> set protoKeys"

subsection \<open>Arithmetic\<close>

text \<open>
  The arithmetic of doubles on the extended reals. The sign of a zero is not kept: a
  non-zero number divided by zero gives the infinity with the sign of the dividend.
\<close>

fun nneg :: "jsnum \<Rightarrow> jsnum" where
  "nneg (Fin a) = Fin (- a)"
| "nneg PInf = NInf"
| "nneg NInf = PInf"
| "nneg NaN = NaN"

fun nadd :: "jsnum \<Rightarrow> jsnum \<Rightarrow> jsnum" where
  "nadd (Fin a) (Fin b) = Fin (a + b)"
| "nadd NaN _ = NaN"
| "nadd _ NaN = NaN"
| "nadd PInf NInf = NaN"
| "nadd NInf PInf = NaN"
| "nadd PInf _ = PInf"
| "nadd _ PInf = PInf"
| "nadd NInf _ = NInf"
| "nadd _ NInf = NInf"

definition nsub :: "jsnum \<Rightarrow> jsnum \<Rightarrow> jsnum" where
  "nsub a b = nadd a (nneg b)"

definition inf_sign :: "bool \<Rightarrow> jsnum" where
  "inf_sign pos = (if pos then PInf else NInf)"

fun nmul :: "jsnum \<Rightarrow> jsnum \<Rightarrow> jsnum" where
  "nmul (Fin a) (Fin b) = Fin (a * b)"
| "nmul NaN _ = NaN"
| "nmul _ NaN = NaN"
| "nmul (Fin a) PInf = (if a = 0 then NaN else inf_sign (0 < a))"
| "nmul (Fin a) NInf = (if a = 0 then NaN else inf_sign (a < 0))"
| "nmul PInf (Fin b) = (if b = 0 then NaN else inf_sign (0 < b))"
| "nmul NInf (Fin b) = (if b = 0 then NaN else inf_sign (b < 0))"
| "nmul PInf PInf = PInf"
| "nmul NInf NInf = PInf"
| "nmul PInf NInf = NInf"
| "nmul NInf PInf = NInf"

fun ndiv :: "jsnum \<Rightarrow> jsnum \<Rightarrow> jsnum" where
  "ndiv (Fin a) (Fin b) =
     (if b \<noteq> 0 then Fin (a / b) else if a = 0 then NaN else inf_sign (0 < a))"
| "ndiv NaN _ = NaN"
| "ndiv _ NaN = NaN"
| "ndiv (Fin a) PInf = Fin 0"
| "ndiv (Fin a) NInf = Fin 0"
| "ndiv PInf (Fin b) = inf_sign (0 \<le> b)"
| "ndiv NInf (Fin b) = inf_sign (b < 0)"
| "ndiv PInf PInf = NaN"
| "ndiv PInf NInf = NaN"
| "ndiv NInf PInf = NaN"
| "ndiv NInf NInf = NaN"

fun nabs :: "jsnum \<Rightarrow> jsnum" where
  "nabs (Fin a) = Fin \<bar>a\<bar>"
| "nabs PInf = PInf"
| "nabs NInf = PInf"
| "nabs NaN = NaN"

text \<open>Comparisons are false when an operand is \<^verbatim>\<open>NaN\<close>.\<close>

fun nless :: "jsnum \<Rightarrow> jsnum \<Rightarrow> bool" where
  "nless (Fin a) (Fin b) = (a < b)"
| "nless NaN _ = False"
| "nless _ NaN = False"
| "nless PInf _ = False"
| "nless _ NInf = False"
| "nless _ PInf = True"
| "nless NInf _ = True"

definition nle :: "jsnum \<Rightarrow> jsnum \<Rightarrow> bool" where
  "nle a b \<longleftrightarrow> nless a b \<or> (a \<noteq> NaN \<and> a = b)"

fun isFinite :: "jsnum \<Rightarrow> bool" where
  "isFinite (Fin a) = True"
| "isFinite _ = False"

text \<open>\<^verbatim>\<open>Math.max(a, b)\<close>.\<close>

definition nmax :: "jsnum \<Rightarrow> jsnum \<Rightarrow> jsnum" where
  "nmax a b = (if a = NaN \<or> b = NaN then NaN else if nless a b then b else a)"

text \<open>\<^verbatim>\<open>Math.round\<close> rounds to the nearest integer, a half upwards.\<close>

fun math_round :: "jsnum \<Rightarrow> jsnum" where
  "math_round (Fin a) = Fin (of_int \<lfloor>a + 1 / 2\<rfloor>)"
| "math_round n = n"

text \<open>
  \<^verbatim>\<open>d3.round(x, n)\<close> of d3 version 3 is \<^verbatim>\<open>Math.round(x * 10^n) / 10^n\<close> for
  \<^verbatim>\<open>n\<close> other than 0.
\<close>

definition d3_round2 :: "jsnum \<Rightarrow> jsnum" where
  "d3_round2 x = ndiv (math_round (nmul x (Fin 100))) (Fin 100)"

text \<open>\<^verbatim>\<open>Math.log(v) / Math.LN10\<close>.\<close>

fun log10_js :: "jsnum \<Rightarrow> jsnum" where
  "log10_js (Fin a) =
     (if 0 < a then Fin (ln a / ln 10) else if a = 0 then NInf else NaN)"
| "log10_js PInf = PInf"
| "log10_js _ = NaN"

text \<open>\<^verbatim>\<open>Math.pow(10, v)\<close>.\<close>

fun pow10_js :: "jsnum \<Rightarrow> jsnum" where
  "pow10_js (Fin a) = Fin (10 powr a)"
| "pow10_js PInf = PInf"
| "pow10_js NInf = Fin 0"
| "pow10_js NaN = NaN"

subsection \<open>Conversion of values to numbers and strings\<close>

text \<open>\<^verbatim>\<open>isNumeric\<close> of fast-isnumeric: a finite number or a numeric string.\<close>

definition isNumeric :: "lib \<Rightarrow> jsval \<Rightarrow> bool" where
  "isNumeric L v =
     (case v of JNum (Fin r) \<Rightarrow> True | JStr s \<Rightarrow> str_isNumeric L s | _ \<Rightarrow> False)"

text \<open>\<^verbatim>\<open>Number(v)\<close>, \<^verbatim>\<open>+v\<close> and the conversion of the operands of arithmetic.\<close>

definition toNumber :: "lib \<Rightarrow> jsval \<Rightarrow> jsnum" where
  "toNumber L v =
     (case v of
        JUndefined \<Rightarrow> NaN
      | JNull \<Rightarrow> Fin 0
      | JNum n \<Rightarrow> n
      | JStr s \<Rightarrow> str_toNumber L s
      | JArr xs \<Rightarrow> str_toNumber L (toKey L (JArr xs))
      | JObj k \<Rightarrow> str_toNumber L (obj2str L k))"

text \<open>
  \<^verbatim>\<open>a + b\<close> concatenates when an operand is a string, an array or another object and
  adds numbers otherwise.
\<close>

definition js_plus :: "lib \<Rightarrow> jsval \<Rightarrow> jsval \<Rightarrow> jsval" where
  "js_plus L a b =
     (let stringy = (\<lambda>v. case v of JStr s \<Rightarrow> True | JArr xs \<Rightarrow> True | JObj k \<Rightarrow> True
                         | _ \<Rightarrow> False)
      in if stringy a \<or> stringy b then JStr (toKey L a @ toKey L b)
         else JNum (nadd (toNumber L a) (toNumber L b)))"

text \<open>The library is coherent when a numeric string converts to a finite number.\<close>

definition lib_ok :: "lib \<Rightarrow> bool" where
  "lib_ok L \<longleftrightarrow> (\<forall>s. str_isNumeric L s \<longrightarrow> isFinite (str_toNumber L s))"

section \<open>The axis\<close>

text \<open>The errors raised: a \<^verbatim>\<open>TypeError\<close> of the runtime and the error of \<^verbatim>\<open>setScale\<close>.\<close>

datatype error = TypeError | ScaleError

text \<open>Reading an array out of range gives \<^verbatim>\<open>undefined\<close>.\<close>

definition js_nth :: "jsval list \<Rightarrow> nat \<Rightarrow> jsval" where
  "js_nth xs j = (if j < length xs then xs ! j else JUndefined)"

datatype axtype = Linear | Log | Date | Category | Multicategory

datatype axletter = X | Y

record axis =
  ax_id :: string
  ax_type :: axtype
  ax_letter :: axletter
  traceIndices :: "nat list"
  categories :: "jsval list"
  categoriesMap :: "(string \<rightharpoonup> jsval) option"
  range :: "jsval list option"
  private_r :: "jsval list option"
  calendar :: jsval
  domain :: "real \<times> real"
  overlaying :: "string option"
  ax_offset :: jsnum
  ax_length :: jsnum
  ax_m :: jsnum
  ax_b :: jsnum

section \<open>The category registry\<close>

text \<open>
  \<^verbatim>\<open>setCategoryIndex(v)\<close> returns \<^verbatim>\<open>ax._categoriesMap[v]\<close> when that is not
  \<^verbatim>\<open>undefined\<close>, and else enters \<^verbatim>\<open>v\<close> in \<^verbatim>\<open>ax._categories\<close> and
  \<^verbatim>\<open>ax._categoriesMap\<close> and returns its index. The map is an object literal, so the
  reading finds the inherited members too. The updated axis is returned with the result.
\<close>

definition setCategoryIndex :: "lib \<Rightarrow> jsval \<Rightarrow> axis \<Rightarrow> jsval \<times> axis" where
  "setCategoryIndex L v ax =
     (if isValidCategory v then
        (let cmap = (case categoriesMap ax of None \<Rightarrow> Map.empty | Some cm \<Rightarrow> cm)
         in if obj_get cmap (toKey L v) \<noteq> JUndefined
            then (obj_get cmap (toKey L v), ax\<lparr>categoriesMap := Some cmap\<rparr>)
            else
              (let cats = categories ax @ [v];
                   curLength = JNum (Fin (real (length cats) - 1))
               in (curLength,
                   ax\<lparr>categories := cats,
                      categoriesMap := Some (cmap(toKey L v \<mapsto> curLength))\<rparr>)))
      else (BADNUM, ax))"

definition cmap_of :: "axis \<Rightarrow> string \<rightharpoonup> jsval" where
  "cmap_of ax = (case categoriesMap ax of None \<Rightarrow> Map.empty | Some cm \<Rightarrow> cm)"

text \<open>
  The loop \<^verbatim>\<open>for(i = 0; i < len; i++) arrayOut[i] = ax.d2c(arrayIn[i], 0, cal)\<close> of
  \<^verbatim>\<open>makeCalcdata\<close> on a category axis, where \<^verbatim>\<open>d2c\<close> is \<^verbatim>\<open>setCategoryIndex\<close>,
  and the seeding loop of \<^verbatim>\<open>clearCalc\<close>.
\<close>

fun setCategoryIndices :: "lib \<Rightarrow> jsval list \<Rightarrow> axis \<Rightarrow> jsval list \<times> axis" where
  "setCategoryIndices L [] ax = ([], ax)"
| "setCategoryIndices L (v # vs) ax =
     (let (i, ax1) = setCategoryIndex L v ax;
          (js, ax2) = setCategoryIndices L vs ax1
      in (i # js, ax2))"

text \<open>\<^verbatim>\<open>emptyCategories\<close> of \<^verbatim>\<open>clearCalc\<close>.\<close>

definition emptyCategories :: "axis \<Rightarrow> axis" where
  "emptyCategories ax = ax\<lparr>categories := [], categoriesMap := Some Map.empty\<rparr>"

text \<open>
  The registry is consistent when the map holds exactly the keys of the listed
  categories, each bound to the position of its category, and no key is listed twice.
\<close>

definition reg_inv :: "lib \<Rightarrow> axis \<Rightarrow> bool" where
  "reg_inv L ax \<longleftrightarrow>
     distinct (map (toKey L) (categories ax)) \<and>
     dom (cmap_of ax) = set (map (toKey L) (categories ax)) \<and>
     (\<forall>n < length (categories ax).
        cmap_of ax (toKey L (categories ax ! n)) = Some (JNum (Fin (real n))))"

section \<open>An instance of the library for examples\<close>

text \<open>
  The examples run the model with this instance of the library parameters. Its number
  parser reads unsigned decimal integers only, it writes integers only and it parses no
  dates; the numeric
  constants are those of plotly.js (\<^verbatim>\<open>FP_SAFE = Number.MAX_VALUE / 10000\<close>,
  \<^verbatim>\<open>LOG_CLIP = 10\<close>, the default ranges), the bounds of the date system being given to
  their order of magnitude.
\<close>

definition digit_val :: "char \<Rightarrow> nat option" where
  "digit_val c = (let n = (of_char c :: nat)
                  in if 48 \<le> n \<and> n \<le> 57 then Some (n - 48) else None)"

fun dec_nat :: "nat \<Rightarrow> string \<Rightarrow> nat option" where
  "dec_nat acc [] = Some acc"
| "dec_nat acc (c # cs) =
     (case digit_val c of None \<Rightarrow> None | Some d \<Rightarrow> dec_nat (10 * acc + d) cs)"

definition dec_numeric :: "string \<Rightarrow> real option" where
  "dec_numeric s = (if s = [] then None else map_option real (dec_nat 0 s))"

fun dec_of_nat :: "nat \<Rightarrow> string" where
  "dec_of_nat n =
     (if n < 10 then [''0123456789'' ! n]
      else dec_of_nat (n div 10) @ [''0123456789'' ! (n mod 10)])"

declare dec_of_nat.simps [simp del]

text \<open>The string of a number, exact on the integers and on the values that are not finite.\<close>

definition std_num2str :: "jsnum \<Rightarrow> string" where
  "std_num2str n =
     (case n of
        Fin r \<Rightarrow>
          if r = of_int \<lfloor>r\<rfloor>
          then (if r < 0 then CHR ''-'' # dec_of_nat (nat (- \<lfloor>r\<rfloor>)) else dec_of_nat (nat \<lfloor>r\<rfloor>))
          else ''#''
      | PInf \<Rightarrow> ''Infinity''
      | NInf \<Rightarrow> ''-Infinity''
      | NaN \<Rightarrow> ''NaN'')"

text \<open>The string of a member of \<^verbatim>\<open>Object.prototype\<close>.\<close>

definition std_obj2str :: "string \<Rightarrow> string" where
  "std_obj2str k =
     (if k = ''__proto__'' then ''[object Object]''
      else if k = ''constructor'' then ''function Object() { [native code] }''
      else ''function '' @ k @ ''() { [native code] }'')"

definition std_cleanNumber :: "jsval \<Rightarrow> jsval" where
  "std_cleanNumber v =
     (case v of
        JNum (Fin r) \<Rightarrow> JNum (Fin r)
      | JStr s \<Rightarrow> (case dec_numeric s of Some r \<Rightarrow> JNum (Fin r) | None \<Rightarrow> BADNUM)
      | _ \<Rightarrow> BADNUM)"

definition std_ensureNumber :: "real \<Rightarrow> jsval \<Rightarrow> jsval" where
  "std_ensureNumber fp_safe v =
     (case std_cleanNumber v of
        JNum (Fin r) \<Rightarrow> if r < - fp_safe \<or> fp_safe < r then BADNUM else JNum (Fin r)
      | _ \<Rightarrow> BADNUM)"

fun std_minRowLength :: "jsval \<Rightarrow> nat" where
  "std_minRowLength (JArr (JArr r # rows)) =
     fold (\<lambda>row len. case row of JArr xs \<Rightarrow> min len (length xs) | _ \<Rightarrow> len) rows (length r)"
| "std_minRowLength (JArr xs) = length xs"
| "std_minRowLength _ = 0"

definition L0 :: lib where
  "L0 = \<lparr> str_isNumeric = (\<lambda>s. dec_numeric s \<noteq> None),
          str_toNumber = (\<lambda>s. case dec_numeric s of Some r \<Rightarrow> Fin r | None \<Rightarrow> NaN),
          num2str = std_num2str,
          obj2str = std_obj2str,
          FP_SAFE = 17976931348623157 * 10 ^ 288,
          LOG_CLIP = 10,
          cleanNumber = std_cleanNumber,
          ensureNumber = std_ensureNumber (17976931348623157 * 10 ^ 288),
          dateTime2ms = (\<lambda>v c. BADNUM),
          date2ms = (\<lambda>ms. JNum ms),
          ms2DateTime = (\<lambda>v r c. BADNUM),
          minRowLength = std_minRowLength,
          cleanDate = (\<lambda>v c. BADNUM),
          isDateTime = (\<lambda>v c. False),
          dfltRangeDate = (\<lambda>c. [JStr ''2000-01-01'', JStr ''2001-01-01'']),
          MIN_MS = - 4 * 10 ^ 14,
          MAX_MS = 3 * 10 ^ 14,
          DFLTRANGEX = [JNum (Fin (- 1)), JNum (Fin 6)],
          DFLTRANGEY = [JNum (Fin (- 1)), JNum (Fin 4)] \<rparr>"

definition ax0 :: axis where
  "ax0 = \<lparr> ax_id = ''x'', ax_type = Category, ax_letter = X, traceIndices = [0],
           categories = [], categoriesMap = None,
           range = None, private_r = None, calendar = JUndefined, domain = (0, 1),
           overlaying = None, ax_offset = NaN, ax_length = NaN, ax_m = NaN, ax_b = NaN \<rparr>"

section \<open>Traces and the multicategory order\<close>

record trace =
  tr_field :: "axletter \<Rightarrow> jsval option"
    \<comment> \<open>\<^verbatim>\<open>trace.x\<close>, \<^verbatim>\<open>trace.y\<close>; \<open>None\<close> when the property is not in the trace\<close>
  tr_length :: "nat option"
    \<comment> \<open>\<^verbatim>\<open>trace._length\<close>\<close>
  tr_start :: "axletter \<Rightarrow> jsval option"
    \<comment> \<open>\<^verbatim>\<open>trace.x0\<close>, \<^verbatim>\<open>trace.y0\<close>\<close>
  tr_delta :: "axletter \<Rightarrow> jsval option"
    \<comment> \<open>\<^verbatim>\<open>trace.dx\<close>, \<^verbatim>\<open>trace.dy\<close>\<close>
  tr_calendar :: "axletter \<Rightarrow> jsval"

text \<open>\<^verbatim>\<open>trace._length || Lib.minRowLength(arrayIn)\<close>: a length of 0 is falsy.\<close>

definition traceLen :: "lib \<Rightarrow> trace \<Rightarrow> jsval \<Rightarrow> nat" where
  "traceLen L tr arrayIn =
     (case tr_length tr of
        Some n \<Rightarrow> if n \<noteq> 0 then n else minRowLength L arrayIn
      | None \<Rightarrow> minRowLength L arrayIn)"

text \<open>
  \<^verbatim>\<open>seen = [[0, {}], [0, {}]]\<close>: for each level a counter and a map from key to rank.
  \<^verbatim>\<open>if(!(v in seen[k][1])) seen[k][1][v] = seen[k][0]++\<close>. The map is an object
  literal, so a key that names an inherited member is in it from the start and gets no
  rank.
\<close>

type_synonym seen = "nat \<times> (string \<rightharpoonup> nat)"

definition see :: "string \<Rightarrow> seen \<Rightarrow> seen" where
  "see k s = (if obj_in k (snd s) then s else (fst s + 1, (snd s)(k \<mapsto> fst s)))"

type_synonym mcstate = "seen \<times> seen \<times> jsval list"

text \<open>The body of the loop over \<^verbatim>\<open>j\<close>.\<close>

definition pairStep :: "lib \<Rightarrow> jsval list \<Rightarrow> jsval list \<Rightarrow> nat \<Rightarrow> mcstate \<Rightarrow> mcstate" where
  "pairStep L r0 r1 j st =
     (let v0 = js_nth r0 j; v1 = js_nth r1 j
      in if isValidCategory v0 \<and> isValidCategory v1 then
           (case st of (s0, s1, list) \<Rightarrow>
              (see (toKey L v0) s0, see (toKey L v1) s1, list @ [JArr [v0, v1]]))
         else st)"

text \<open>
  The body of the loop over the contributing traces. Reading \<^verbatim>\<open>arrayIn[0]\<close> of
  \<^verbatim>\<open>null\<close> or \<^verbatim>\<open>undefined\<close> and reading a property of a trace that does not exist
  raise a \<^verbatim>\<open>TypeError\<close>.
\<close>

definition traceStep :: "lib \<Rightarrow> axis \<Rightarrow> trace list \<Rightarrow> nat \<Rightarrow> mcstate \<Rightarrow> error + mcstate" where
  "traceStep L ax fullData idx st =
     (if idx < length fullData then
        (let tr = fullData ! idx
         in case tr_field tr (ax_letter ax) of
              None \<Rightarrow> Inr st
            | Some arrayIn \<Rightarrow>
                (case arrayIn of
                   JUndefined \<Rightarrow> Inl TypeError
                 | JNull \<Rightarrow> Inl TypeError
                 | JArr (JArr r0 # JArr r1 # rest) \<Rightarrow>
                     Inr (fold (pairStep L r0 r1) [0 ..< traceLen L tr arrayIn] st)
                 | _ \<Rightarrow> Inr st))
      else Inl TypeError)"

fun traceLoop :: "lib \<Rightarrow> axis \<Rightarrow> trace list \<Rightarrow> nat list \<Rightarrow> mcstate \<Rightarrow> error + mcstate" where
  "traceLoop L ax fullData [] st = Inr st"
| "traceLoop L ax fullData (idx # rest) st =
     (case traceStep L ax fullData idx st of
        Inl e \<Rightarrow> Inl e
      | Inr st' \<Rightarrow> traceLoop L ax fullData rest st')"

text \<open>
  The match groups of the layout: each group lists, in key order, the ids of its axes
  with the \<^verbatim>\<open>_traceIndices\<close> of that axis.
\<close>

type_synonym matchGroups = "(string \<times> nat list) list list"

definition gatherTraceIndices :: "axis \<Rightarrow> matchGroups \<Rightarrow> nat list" where
  "gatherTraceIndices ax groups =
     (if groups \<noteq> [] \<and> categories ax = [] then
        foldl (\<lambda>ti group.
                 if ax_id ax \<in> fst ` set group then
                   foldl (\<lambda>ti (axId2, ti2). if axId2 \<noteq> ax_id ax then ti @ ti2 else ti) ti group
                 else ti)
              (traceIndices ax) groups
      else traceIndices ax)"

text \<open>
  \<^verbatim>\<open>ind[k]\<close> on a map of ranks: the rank, an inherited member, or \<^verbatim>\<open>undefined\<close>.
\<close>

definition rankVal :: "seen \<Rightarrow> string \<Rightarrow> jsval" where
  "rankVal s k =
     (case snd s k of
        Some r \<Rightarrow> JNum (Fin (real r))
      | None \<Rightarrow> if k \<in> set protoKeys then JObj k else JUndefined)"

definition pairItem :: "jsval \<Rightarrow> nat \<Rightarrow> jsval" where
  "pairItem p i = (case p of JArr xs \<Rightarrow> js_nth xs i | _ \<Rightarrow> JUndefined)"

text \<open>
  The comparator of \<^verbatim>\<open>list.sort\<close>: the difference of the ranks of the first keys
  when that is a number other than 0, and else the difference of the ranks of the second
  keys. A difference with a key that has no rank is \<^verbatim>\<open>NaN\<close>.
\<close>

definition pairCmp :: "lib \<Rightarrow> seen \<Rightarrow> seen \<Rightarrow> jsval \<Rightarrow> jsval \<Rightarrow> jsnum" where
  "pairCmp L s0 s1 a b =
     (let d = nsub (toNumber L (rankVal s0 (toKey L (pairItem a 0))))
                   (toNumber L (rankVal s0 (toKey L (pairItem b 0))))
      in if d \<noteq> Fin 0 \<and> d \<noteq> NaN then d
         else nsub (toNumber L (rankVal s1 (toKey L (pairItem a 1))))
                   (toNumber L (rankVal s1 (toKey L (pairItem b 1)))))"

text \<open>
  \<^verbatim>\<open>Array.prototype.sort\<close> with a comparator, as the insertion sort that takes the
  members from left to right and moves each one to the left past the members the
  comparator puts after it (a positive result; \<^verbatim>\<open>NaN\<close> counts as 0). For a comparator
  that is a total preorder this is the stable sort ECMAScript requires. For any other
  comparator ECMAScript leaves the order to the implementation.
\<close>

definition js_insert :: "('a \<Rightarrow> 'a \<Rightarrow> jsnum) \<Rightarrow> 'a \<Rightarrow> 'a list \<Rightarrow> 'a list" where
  "js_insert cmp x ys =
     rev (dropWhile (\<lambda>e. nless (Fin 0) (cmp e x)) (rev ys)) @
     x # rev (takeWhile (\<lambda>e. nless (Fin 0) (cmp e x)) (rev ys))"

definition js_sort :: "('a \<Rightarrow> 'a \<Rightarrow> jsnum) \<Rightarrow> 'a list \<Rightarrow> 'a list" where
  "js_sort cmp xs = foldl (\<lambda>acc x. js_insert cmp x acc) [] xs"

definition setupMultiCategory :: "lib \<Rightarrow> matchGroups \<Rightarrow> trace list \<Rightarrow> axis \<Rightarrow> error + axis" where
  "setupMultiCategory L groups fullData ax =
     (case traceLoop L ax fullData (gatherTraceIndices ax groups)
             ((0, Map.empty), (0, Map.empty), []) of
        Inl e \<Rightarrow> Inl e
      | Inr (s0, s1, list) \<Rightarrow>
          Inr (snd (setCategoryIndices L (js_sort (pairCmp L s0 s1) list) ax)))"

subsection \<open>The order as the specification words it\<close>

text \<open>
  The observed pairs: for each contributing trace that has the axis field with two
  array rows, the pairs of the two rows at the positions below the trace length whose
  members are both valid categories, in order of appearance.
\<close>

definition tracePairs :: "lib \<Rightarrow> axis \<Rightarrow> trace \<Rightarrow> jsval list" where
  "tracePairs L ax tr =
     (case tr_field tr (ax_letter ax) of
        Some (JArr (JArr r0 # JArr r1 # rest)) \<Rightarrow>
          map (\<lambda>j. JArr [js_nth r0 j, js_nth r1 j])
            (filter (\<lambda>j. isValidCategory (js_nth r0 j) \<and> isValidCategory (js_nth r1 j))
               [0 ..< traceLen L tr (JArr (JArr r0 # JArr r1 # rest))])
      | _ \<Rightarrow> [])"

definition observedPairs :: "lib \<Rightarrow> axis \<Rightarrow> trace list \<Rightarrow> nat list \<Rightarrow> jsval list" where
  "observedPairs L ax fullData idxs = concat (map (\<lambda>idx. tracePairs L ax (fullData ! idx)) idxs)"

text \<open>
  The appearance-order rank of a key in a sequence of keys: the number of different keys
  that occur before its first occurrence.
\<close>

definition appearanceRank :: "string list \<Rightarrow> string \<Rightarrow> nat" where
  "appearanceRank ks k = length (remdups (takeWhile (\<lambda>x. x \<noteq> k) ks))"

definition firstKey :: "lib \<Rightarrow> jsval \<Rightarrow> string" where
  "firstKey L p = (case p of JArr [v0, v1] \<Rightarrow> toKey L v0 | _ \<Rightarrow> [])"

definition secondKey :: "lib \<Rightarrow> jsval \<Rightarrow> string" where
  "secondKey L p = (case p of JArr [v0, v1] \<Rightarrow> toKey L v1 | _ \<Rightarrow> [])"

text \<open>The ranks the loop has kept, as a pair of numbers.\<close>

definition rankOf :: "seen \<Rightarrow> string \<Rightarrow> nat" where
  "rankOf s k = (case snd s k of Some r \<Rightarrow> r | None \<Rightarrow> 0)"

definition pairRank :: "lib \<Rightarrow> seen \<Rightarrow> seen \<Rightarrow> jsval \<Rightarrow> nat \<times> nat" where
  "pairRank L s0 s1 p =
     (case p of
        JArr [v0, v1] \<Rightarrow> (rankOf s0 (toKey L v0), rankOf s1 (toKey L v1))
      | _ \<Rightarrow> (0, 0))"

definition specRank :: "lib \<Rightarrow> jsval list \<Rightarrow> jsval \<Rightarrow> nat \<times> nat" where
  "specRank L obs p =
     (appearanceRank (map (firstKey L) obs) (firstKey L p),
      appearanceRank (map (secondKey L) obs) (secondKey L p))"

text \<open>The members of a list whose key has not occurred before, in order.\<close>

fun firstsBy :: "('a \<Rightarrow> 'k) \<Rightarrow> 'k list \<Rightarrow> 'a list \<Rightarrow> 'a list" where
  "firstsBy f seen [] = []"
| "firstsBy f seen (x # xs) =
     (if f x \<in> set seen then firstsBy f seen xs else x # firstsBy f (seen @ [f x]) xs)"

definition isPair :: "jsval \<Rightarrow> bool" where
  "isPair p = (case p of JArr [v0, v1] \<Rightarrow> True | _ \<Rightarrow> False)"

definition seen_inv :: "seen \<Rightarrow> string list \<Rightarrow> bool" where
  "seen_inv s ks \<longleftrightarrow>
     fst s = length (remdups ks) \<and>
     (\<forall>k. snd s k = (if k \<in> set ks then Some (appearanceRank ks k) else None))"

text \<open>A pair neither key of which names a member of \<^verbatim>\<open>Object.prototype\<close>.\<close>

definition plainPair :: "lib \<Rightarrow> jsval \<Rightarrow> bool" where
  "plainPair L p \<longleftrightarrow> firstKey L p \<notin> set protoKeys \<and> secondKey L p \<notin> set protoKeys"

text \<open>
  A trace whose rows \<^verbatim>\<open>[["y","constructor","y","x"],["1","1","2","1"]]\<close> have a first
  key that names a member of \<^verbatim>\<open>Object.prototype\<close>.
\<close>

definition tr_proto :: trace where
  "tr_proto = \<lparr> tr_field = (\<lambda>l. case l of
                 X \<Rightarrow> Some (JArr [JArr [JStr ''y'', JStr ''constructor'', JStr ''y'', JStr ''x''],
                                   JArr [JStr ''1'', JStr ''1'', JStr ''2'', JStr ''1'']])
               | Y \<Rightarrow> None),
             tr_length = None, tr_start = (\<lambda>l. None), tr_delta = (\<lambda>l. None),
             tr_calendar = (\<lambda>l. JUndefined) \<rparr>"

definition mc_inv :: "lib \<Rightarrow> mcstate \<Rightarrow> bool" where
  "mc_inv L st \<longleftrightarrow>
     (case st of (s0, s1, list) \<Rightarrow>
        (\<forall>p \<in> set list. isPair p) \<and>
        seen_inv s0 (map (firstKey L) list) \<and>
        seen_inv s1 (map (secondKey L) list))"

text \<open>
  A multicategory axis with a cleared registry and a trace with
  \<^verbatim>\<open>x = [["x","x","y"],["1","2","1"]]\<close>.
\<close>

definition axm :: axis where
  "axm = emptyCategories (ax0\<lparr>ax_type := Multicategory\<rparr>)"

definition tr_xy :: trace where
  "tr_xy = \<lparr> tr_field = (\<lambda>l. case l of
                 X \<Rightarrow> Some (JArr [JArr [JStr ''x'', JStr ''x'', JStr ''y''],
                                   JArr [JStr ''1'', JStr ''2'', JStr ''1'']])
               | Y \<Rightarrow> None),
             tr_length = None, tr_start = (\<lambda>l. None), tr_delta = (\<lambda>l. None),
             tr_calendar = (\<lambda>l. JUndefined) \<rparr>"

section \<open>The conversion functions\<close>

definition js_truthy :: "jsval \<Rightarrow> bool" where
  "js_truthy v =
     (case v of
        JUndefined \<Rightarrow> False
      | JNull \<Rightarrow> False
      | JNum (Fin r) \<Rightarrow> r \<noteq> 0
      | JNum NaN \<Rightarrow> False
      | JNum _ \<Rightarrow> True
      | JStr s \<Rightarrow> s \<noteq> []
      | JArr xs \<Rightarrow> True
      | JObj k \<Rightarrow> True)"

text \<open>\<^verbatim>\<open>fromLog(v)\<close>: \<^verbatim>\<open>Math.pow(10, v)\<close>.\<close>

definition fromLog :: "lib \<Rightarrow> jsval \<Rightarrow> jsval" where
  "fromLog L v = JNum (pow10_js (toNumber L v))"

text \<open>
  \<^verbatim>\<open>toLog(v, clip)\<close>: the logarithm of a positive value; a value that is not positive
  is clipped below the range when \<^verbatim>\<open>clip\<close> is set and the axis has a range of two
  members, and is \<^verbatim>\<open>BADNUM\<close> otherwise.
\<close>

definition toLog :: "lib \<Rightarrow> axis \<Rightarrow> jsval \<Rightarrow> bool \<Rightarrow> jsval" where
  "toLog L ax v clip =
     (if nless (Fin 0) (toNumber L v) then JNum (log10_js (toNumber L v))
      else if nle (toNumber L v) (Fin 0) \<and> clip \<and>
              (case range ax of Some r \<Rightarrow> length r = 2 | None \<Rightarrow> False) then
        (let r0 = the (range ax) ! 0;
             r1 = the (range ax) ! 1
         in JNum (nmul (Fin (1 / 2))
                   (nsub (toNumber L (js_plus L r0 r1))
                         (nmul (nmul (Fin 2) (Fin (LOG_CLIP L)))
                               (nabs (nsub (toNumber L r0) (toNumber L r1)))))))
      else BADNUM)"

text \<open>
  \<^verbatim>\<open>dt2ms(v, _, calendar)\<close>: the date as milliseconds, a number that is no date being
  taken as milliseconds, its tenths of a millisecond kept.
\<close>

definition dt2ms :: "lib \<Rightarrow> axis \<Rightarrow> jsval \<Rightarrow> jsval \<Rightarrow> jsval" where
  "dt2ms L ax v cal =
     (let ms = dateTime2ms L v (if js_truthy cal then cal else calendar ax)
      in if ms = BADNUM then
           (if isNumeric L v then
              (case toNumber L v of
                 Fin r \<Rightarrow>
                   (let msecTenths = of_int \<lfloor>(r + 5 / 100 - of_int \<lfloor>r + 5 / 100\<rfloor>) * 10\<rfloor>;
                        msRounded = math_round (Fin (r - msecTenths / 10))
                    in js_plus L (date2ms L msRounded) (JNum (Fin (msecTenths / 10))))
               | n \<Rightarrow> js_plus L (date2ms L NaN) (JNum NaN))
            else BADNUM)
         else ms)"

text \<open>\<^verbatim>\<open>ms2dt(v, r, calendar)\<close>.\<close>

definition ms2dt :: "lib \<Rightarrow> axis \<Rightarrow> jsval \<Rightarrow> jsval \<Rightarrow> jsval \<Rightarrow> jsval" where
  "ms2dt L ax v r cal = ms2DateTime L v r (if js_truthy cal then cal else calendar ax)"

text \<open>\<^verbatim>\<open>getCategoryName(v)\<close>: \<^verbatim>\<open>ax._categories[Math.round(v)]\<close>.\<close>

definition getCategoryName :: "lib \<Rightarrow> axis \<Rightarrow> jsval \<Rightarrow> jsval" where
  "getCategoryName L ax v =
     (case math_round (toNumber L v) of
        Fin r \<Rightarrow> if 0 \<le> r then js_nth (categories ax) (nat \<lfloor>r\<rfloor>) else JUndefined
      | _ \<Rightarrow> JUndefined)"

text \<open>
  \<^verbatim>\<open>getCategoryIndex(v)\<close> reads \<^verbatim>\<open>ax._categoriesMap[v]\<close>, inherited members
  included, and enters nothing.
\<close>

definition getCategoryIndex :: "lib \<Rightarrow> axis \<Rightarrow> jsval \<Rightarrow> jsval" where
  "getCategoryIndex L ax v =
     (case categoriesMap ax of
        None \<Rightarrow> JUndefined
      | Some cm \<Rightarrow> obj_get cm (toKey L v))"

text \<open>
  \<^verbatim>\<open>getCategoryPosition(v)\<close>: the index of a registered category, else the number a
  numeric value denotes, else \<^verbatim>\<open>undefined\<close>.
\<close>

definition getCategoryPosition :: "lib \<Rightarrow> axis \<Rightarrow> jsval \<Rightarrow> jsval" where
  "getCategoryPosition L ax v =
     (let index = getCategoryIndex L ax v
      in if index \<noteq> JUndefined then index
         else if isNumeric L v then JNum (toNumber L v)
         else JUndefined)"

text \<open>\<^verbatim>\<open>l2p(v)\<close> and \<^verbatim>\<open>p2l(px)\<close>.\<close>

definition l2p :: "lib \<Rightarrow> axis \<Rightarrow> jsval \<Rightarrow> jsval" where
  "l2p L ax v =
     (if \<not> isNumeric L v then BADNUM
      else JNum (d3_round2 (nadd (ax_b ax) (nmul (ax_m ax) (toNumber L v)))))"

definition p2l :: "lib \<Rightarrow> axis \<Rightarrow> jsval \<Rightarrow> jsval" where
  "p2l L ax px = JNum (ndiv (nsub (toNumber L px) (ax_b ax)) (ax_m ax))"

text \<open>\<^verbatim>\<open>ax.r2l\<close> and \<^verbatim>\<open>ax.l2r\<close> for each type of axis.\<close>

definition r2l :: "lib \<Rightarrow> axis \<Rightarrow> jsval \<Rightarrow> jsval \<Rightarrow> jsval" where
  "r2l L ax v cal =
     (case ax_type ax of
        Linear \<Rightarrow> cleanNumber L v
      | Log \<Rightarrow> cleanNumber L v
      | Date \<Rightarrow> dt2ms L ax v cal
      | Category \<Rightarrow> getCategoryPosition L ax v
      | Multicategory \<Rightarrow> getCategoryPosition L ax v)"

definition l2r :: "lib \<Rightarrow> axis \<Rightarrow> jsval \<Rightarrow> jsval \<Rightarrow> jsval \<Rightarrow> jsval" where
  "l2r L ax v r cal =
     (case ax_type ax of
        Date \<Rightarrow> ms2dt L ax v r cal
      | _ \<Rightarrow> ensureNumber L v)"

text \<open>
  \<^verbatim>\<open>ax.fraction2r(v)\<close>: the range value at a fraction of the axis. Reading
  \<^verbatim>\<open>ax.range[0]\<close> raises a \<^verbatim>\<open>TypeError\<close> when the axis has no range.
\<close>

definition fraction2r :: "lib \<Rightarrow> axis \<Rightarrow> jsval \<Rightarrow> error + jsval" where
  "fraction2r L ax v =
     (case range ax of
        None \<Rightarrow> Inl TypeError
      | Some rng \<Rightarrow>
          (let rl0 = r2l L ax (js_nth rng 0) JUndefined;
               rl1 = r2l L ax (js_nth rng 1) JUndefined
           in Inr (l2r L ax
                 (js_plus L rl0
                    (JNum (nmul (toNumber L v) (nsub (toNumber L rl1) (toNumber L rl0)))))
                 JUndefined JUndefined)))"

text \<open>\<^verbatim>\<open>ax.r2c\<close> of the category and multicategory axes.\<close>

definition r2c_category :: "lib \<Rightarrow> axis \<Rightarrow> jsval \<Rightarrow> error + jsval" where
  "r2c_category L ax v =
     (let index = getCategoryPosition L ax v
      in if index \<noteq> JUndefined then Inr index else fraction2r L ax (JNum (Fin (1 / 2))))"

text \<open>A log axis showing the range \<^verbatim>\<open>[0, 2]\<close>, and one showing \<^verbatim>\<open>[1, 100]\<close>.\<close>

definition ax_log02 :: axis where
  "ax_log02 = ax0\<lparr>ax_type := Log, range := Some [JNum (Fin 0), JNum (Fin 2)]\<rparr>"

definition ax_log1_100 :: axis where
  "ax_log1_100 = ax0\<lparr>ax_type := Log, range := Some [JNum (Fin 1), JNum (Fin 100)]\<rparr>"

section \<open>Ranges and the pixel scale\<close>

text \<open>
  \<^verbatim>\<open>a === b\<close> on the values a range can hold. Two arrays are different objects.
\<close>

definition strict_eq :: "jsval \<Rightarrow> jsval \<Rightarrow> bool" where
  "strict_eq a b =
     (case (a, b) of
        (JNum x, JNum y) \<Rightarrow> x \<noteq> NaN \<and> x = y
      | (JArr xs, _) \<Rightarrow> False
      | (_, JArr ys) \<Rightarrow> False
      | _ \<Rightarrow> a = b)"

text \<open>The attribute \<^verbatim>\<open>cleanRange\<close> and \<^verbatim>\<open>setScale\<close> work on: \<^verbatim>\<open>range\<close> or \<^verbatim>\<open>_r\<close>.\<close>

datatype rangeAttr = RangeAttr | PrivateRange

definition getRange :: "rangeAttr \<Rightarrow> axis \<Rightarrow> jsval list option" where
  "getRange ra ax = (case ra of RangeAttr \<Rightarrow> range ax | PrivateRange \<Rightarrow> private_r ax)"

definition setRange :: "rangeAttr \<Rightarrow> jsval list \<Rightarrow> axis \<Rightarrow> axis" where
  "setRange ra rng ax =
     (case ra of RangeAttr \<Rightarrow> ax\<lparr>range := Some rng\<rparr> | PrivateRange \<Rightarrow> ax\<lparr>private_r := Some rng\<rparr>)"

text \<open>
  A pass of the loop of \<^verbatim>\<open>cleanRange\<close> either goes on with the range array as it has
  changed it, or leaves the loop with the value the attribute then has.
\<close>

datatype loopres = Continue "jsval list" | Break "jsval list"

text \<open>The pass for index \<^verbatim>\<open>i\<close> on an axis that is not a date axis.\<close>

definition cleanNumStep :: "lib \<Rightarrow> jsval list \<Rightarrow> nat \<Rightarrow> jsval list \<Rightarrow> loopres" where
  "cleanNumStep L dflt i rng =
     (if \<not> isNumeric L (rng ! i) \<and> \<not> isNumeric L (rng ! (1 - i)) then Break dflt
      else
        (let rng1 = (if \<not> isNumeric L (rng ! i)
                     then rng[i := JNum (nmul (toNumber L (rng ! (1 - i)))
                                              (Fin (if i \<noteq> 0 then 10 else 1 / 10)))]
                     else rng);
             rng2 = (if nless (toNumber L (rng1 ! i)) (Fin (- FP_SAFE L))
                     then rng1[i := JNum (Fin (- FP_SAFE L))]
                     else if nless (Fin (FP_SAFE L)) (toNumber L (rng1 ! i))
                     then rng1[i := JNum (Fin (FP_SAFE L))]
                     else rng1);
             rng3 = (if strict_eq (rng2 ! 0) (rng2 ! 1) then
                       (let inc = nmax (Fin 1) (nabs (nmul (toNumber L (rng2 ! 0)) (Fin (1 / 10 ^ 6))));
                            rng2a = rng2[0 := JNum (nsub (toNumber L (rng2 ! 0)) inc)]
                        in rng2a[1 := js_plus L (rng2a ! 1) (JNum inc)])
                     else rng2)
         in Continue rng3))"

text \<open>\<^verbatim>\<open>Lib.constrain(v, v0, v1)\<close> for \<^verbatim>\<open>v0 \<le> v1\<close>: \<^verbatim>\<open>Math.max(v0, Math.min(v1, v))\<close>.\<close>

definition nmin :: "jsnum \<Rightarrow> jsnum \<Rightarrow> jsnum" where
  "nmin a b = (if a = NaN \<or> b = NaN then NaN else if nless b a then b else a)"

definition constrain :: "jsnum \<Rightarrow> jsnum \<Rightarrow> jsnum \<Rightarrow> jsnum" where
  "constrain v v0 v1 =
     (if nless v1 v0 then nmax v1 (nmin v0 v) else nmax v0 (nmin v1 v))"

text \<open>The pass for index \<^verbatim>\<open>i\<close> on a date axis.\<close>

definition cleanDateStep :: "lib \<Rightarrow> axis \<Rightarrow> jsval list \<Rightarrow> nat \<Rightarrow> jsval list \<Rightarrow> loopres" where
  "cleanDateStep L ax dflt i rng =
     (if \<not> isDateTime L (rng ! i) (calendar ax) then Break dflt
      else if strict_eq (r2l L ax (rng ! 0) JUndefined) (r2l L ax (rng ! 1) JUndefined) then
        (let linCenter = constrain (toNumber L (r2l L ax (rng ! 0) JUndefined))
                           (Fin (MIN_MS L + 1000)) (Fin (MAX_MS L - 1000));
             rng1 = rng[0 := l2r L ax (JNum (nsub linCenter (Fin 1000))) JUndefined JUndefined]
         in Break (rng1[1 := l2r L ax (JNum (nadd linCenter (Fin 1000))) JUndefined JUndefined]))
      else Continue rng)"

text \<open>
  \<^verbatim>\<open>ax.cleanRange(rangeAttr, opts)\<close>, with \<^verbatim>\<open>opts.dfltRange\<close> as an optional argument.
\<close>

definition cleanRange :: "lib \<Rightarrow> rangeAttr \<Rightarrow> jsval list option \<Rightarrow> axis \<Rightarrow> axis" where
  "cleanRange L ra optDflt ax =
     (let dflt = (if ax_type ax = Date then dfltRangeDate L (calendar ax)
                  else if ax_letter ax = Y then DFLTRANGEY L
                  else (case optDflt of Some d \<Rightarrow> d | None \<Rightarrow> DFLTRANGEX L))
      in case getRange ra ax of
           None \<Rightarrow> setRange ra dflt ax
         | Some rng0 \<Rightarrow>
             if length rng0 \<noteq> 2 then setRange ra dflt ax
             else
               (let rng = (if ax_type ax = Date
                           then [cleanDate L (rng0 ! 0) (calendar ax), cleanDate L (rng0 ! 1) (calendar ax)]
                           else rng0);
                    step = (\<lambda>i r. if ax_type ax = Date then cleanDateStep L ax dflt i r
                                   else cleanNumStep L dflt i r)
                in case step 0 rng of
                     Break r \<Rightarrow> setRange ra r ax
                   | Continue r1 \<Rightarrow>
                       (case step 1 r1 of
                          Break r \<Rightarrow> setRange ra r ax
                        | Continue r2 \<Rightarrow> setRange ra r2 ax)))"

text \<open>The size of the plot area, \<^verbatim>\<open>fullLayout._size\<close>, and the domains of the axes of the layout.\<close>

record layout =
  gs_l :: real
  gs_t :: real
  gs_w :: real
  gs_h :: real
  axis_domain :: "string \<rightharpoonup> real \<times> real"


definition scaleAttr :: "bool \<Rightarrow> axis \<Rightarrow> rangeAttr" where
  "scaleAttr usePrivateRange ax =
     (if usePrivateRange \<and> private_r ax \<noteq> None then PrivateRange else RangeAttr)"


text \<open>The offset, length, slope and intercept, by the letter of the axis.\<close>

definition applyScale :: "layout \<Rightarrow> jsnum \<Rightarrow> jsnum \<Rightarrow> axis \<Rightarrow> axis" where
  "applyScale fullLayout rl0 rl1 ax =
     (let d0 = fst (domain ax);
          d1 = snd (domain ax)
      in if ax_letter ax = Y then
           (let len = Fin (gs_h fullLayout * (d1 - d0));
                m = ndiv len (nsub rl0 rl1)
            in ax\<lparr>ax_offset := Fin (gs_t fullLayout + (1 - d1) * gs_h fullLayout),
                  ax_length := len, ax_m := m, ax_b := nmul (nneg m) rl1\<rparr>)
         else
           (let len = Fin (gs_w fullLayout * (d1 - d0));
                m = ndiv len (nsub rl1 rl0)
            in ax\<lparr>ax_offset := Fin (gs_l fullLayout + d0 * gs_w fullLayout),
                  ax_length := len, ax_m := m, ax_b := nmul (nneg m) rl0\<rparr>))"



text \<open>A linear horizontal axis with domain \<^verbatim>\<open>[0, 1]\<close>.\<close>

definition ax_lin :: axis where
  "ax_lin = ax0\<lparr>ax_type := Linear\<rparr>"


definition ax_lin010 :: axis where
  "ax_lin010 = ax_lin\<lparr>range := Some [JNum (Fin 0), JNum (Fin 10)]\<rparr>"




section \<open>The conversion table\<close>

text \<open>
  The conversions \<^verbatim>\<open>setConvert\<close> puts on the axis, by name. \<open>convert L f v a2 a3 ax\<close>
  is the call \<^verbatim>\<open>ax.f(v, a2, a3)\<close>: its result or the error it raises, and the axis
  after the call. The second argument is \<^verbatim>\<open>clip\<close> for the log conversions and the
  third the calendar for the date conversions. A multicategory axis has no \<^verbatim>\<open>d2c\<close>
  and no \<^verbatim>\<open>d2l\<close>, so calling them raises a \<^verbatim>\<open>TypeError\<close>.
\<close>

datatype conv =
  D2C | C2D | D2L | L2D | D2R | R2D | C2L | L2C | D2P | P2D
  | R2P | P2R | L2P | P2L | C2R | R2C | R2L | L2R | C2P | P2C

definition conv_linear :: "lib \<Rightarrow> axis \<Rightarrow> conv \<Rightarrow> jsval \<Rightarrow> jsval" where
  "conv_linear L ax f v =
     (case f of
        D2R \<Rightarrow> cleanNumber L v | R2D \<Rightarrow> cleanNumber L v | D2C \<Rightarrow> cleanNumber L v
      | R2C \<Rightarrow> cleanNumber L v | D2L \<Rightarrow> cleanNumber L v | R2L \<Rightarrow> cleanNumber L v
      | C2D \<Rightarrow> ensureNumber L v | C2R \<Rightarrow> ensureNumber L v | L2D \<Rightarrow> ensureNumber L v
      | L2R \<Rightarrow> ensureNumber L v
      | D2P \<Rightarrow> l2p L ax (cleanNumber L v) | R2P \<Rightarrow> l2p L ax (cleanNumber L v)
      | P2D \<Rightarrow> p2l L ax v | P2R \<Rightarrow> p2l L ax v
      | C2L \<Rightarrow> ensureNumber L v | L2C \<Rightarrow> ensureNumber L v
      | L2P \<Rightarrow> l2p L ax v | P2L \<Rightarrow> p2l L ax v
      | C2P \<Rightarrow> l2p L ax v | P2C \<Rightarrow> p2l L ax v)"

definition conv_log :: "lib \<Rightarrow> axis \<Rightarrow> conv \<Rightarrow> jsval \<Rightarrow> bool \<Rightarrow> jsval" where
  "conv_log L ax f v clip =
     (case f of
        D2R \<Rightarrow> toLog L ax (cleanNumber L v) clip | D2L \<Rightarrow> toLog L ax (cleanNumber L v) clip
      | R2D \<Rightarrow> fromLog L (cleanNumber L v) | R2C \<Rightarrow> fromLog L (cleanNumber L v)
      | D2C \<Rightarrow> cleanNumber L v | R2L \<Rightarrow> cleanNumber L v
      | C2D \<Rightarrow> ensureNumber L v | L2R \<Rightarrow> ensureNumber L v
      | C2R \<Rightarrow> toLog L ax v clip
      | L2D \<Rightarrow> fromLog L v
      | D2P \<Rightarrow> l2p L ax (toLog L ax (cleanNumber L v) clip)
      | P2D \<Rightarrow> fromLog L (p2l L ax v)
      | R2P \<Rightarrow> l2p L ax (cleanNumber L v)
      | P2R \<Rightarrow> p2l L ax v
      | C2L \<Rightarrow> toLog L ax v clip | L2C \<Rightarrow> fromLog L v
      | L2P \<Rightarrow> l2p L ax v | P2L \<Rightarrow> p2l L ax v
      | C2P \<Rightarrow> l2p L ax (toLog L ax v clip) | P2C \<Rightarrow> fromLog L (p2l L ax v))"

definition conv_date :: "lib \<Rightarrow> axis \<Rightarrow> conv \<Rightarrow> jsval \<Rightarrow> jsval \<Rightarrow> jsval \<Rightarrow> jsval" where
  "conv_date L ax f v a2 a3 =
     (case f of
        D2R \<Rightarrow> v | R2D \<Rightarrow> v
      | D2C \<Rightarrow> dt2ms L ax v a3 | R2C \<Rightarrow> dt2ms L ax v a3
      | D2L \<Rightarrow> dt2ms L ax v a3 | R2L \<Rightarrow> dt2ms L ax v a3
      | C2D \<Rightarrow> ms2dt L ax v a2 a3 | C2R \<Rightarrow> ms2dt L ax v a2 a3
      | L2D \<Rightarrow> ms2dt L ax v a2 a3 | L2R \<Rightarrow> ms2dt L ax v a2 a3
      | D2P \<Rightarrow> l2p L ax (dt2ms L ax v a3) | R2P \<Rightarrow> l2p L ax (dt2ms L ax v a3)
      | P2D \<Rightarrow> ms2dt L ax (p2l L ax v) a2 a3 | P2R \<Rightarrow> ms2dt L ax (p2l L ax v) a2 a3
      | C2L \<Rightarrow> ensureNumber L v | L2C \<Rightarrow> ensureNumber L v
      | L2P \<Rightarrow> l2p L ax v | P2L \<Rightarrow> p2l L ax v
      | C2P \<Rightarrow> l2p L ax v | P2C \<Rightarrow> p2l L ax v)"

text \<open>
  The conversions of the category and multicategory axes other than \<^verbatim>\<open>d2c\<close> and
  \<^verbatim>\<open>d2l\<close>: they read the axis and return a value or raise.
\<close>

definition conv_category :: "lib \<Rightarrow> axis \<Rightarrow> conv \<Rightarrow> jsval \<Rightarrow> error + jsval" where
  "conv_category L ax f v =
     (case f of
        R2D \<Rightarrow> Inr (getCategoryName L ax v) | C2D \<Rightarrow> Inr (getCategoryName L ax v)
      | L2D \<Rightarrow> Inr (getCategoryName L ax v)
      | D2R \<Rightarrow> Inr (getCategoryPosition L ax v)
      | R2C \<Rightarrow> r2c_category L ax v
      | L2R \<Rightarrow> Inr (ensureNumber L v) | C2R \<Rightarrow> Inr (ensureNumber L v)
      | R2L \<Rightarrow> Inr (getCategoryPosition L ax v)
      | D2P \<Rightarrow> (case r2c_category L ax v of Inl e \<Rightarrow> Inl e | Inr c \<Rightarrow> Inr (l2p L ax c))
      | R2P \<Rightarrow> (case r2c_category L ax v of Inl e \<Rightarrow> Inl e | Inr c \<Rightarrow> Inr (l2p L ax c))
      | P2D \<Rightarrow> Inr (getCategoryName L ax (p2l L ax v))
      | P2R \<Rightarrow> Inr (p2l L ax v)
      | C2L \<Rightarrow> Inr (ensureNumber L v) | L2C \<Rightarrow> Inr (ensureNumber L v)
      | L2P \<Rightarrow> Inr (l2p L ax v) | P2L \<Rightarrow> Inr (p2l L ax v)
      | C2P \<Rightarrow> Inr (l2p L ax v) | P2C \<Rightarrow> Inr (p2l L ax v)
      | D2C \<Rightarrow> Inl TypeError | D2L \<Rightarrow> Inl TypeError)"

definition convert ::
  "lib \<Rightarrow> conv \<Rightarrow> jsval \<Rightarrow> jsval \<Rightarrow> jsval \<Rightarrow> axis \<Rightarrow> (error + jsval) \<times> axis" where
  "convert L f v a2 a3 ax =
     (case ax_type ax of
        Linear \<Rightarrow> (Inr (conv_linear L ax f v), ax)
      | Log \<Rightarrow> (Inr (conv_log L ax f v (js_truthy a2)), ax)
      | Date \<Rightarrow> (Inr (conv_date L ax f v a2 a3), ax)
      | Category \<Rightarrow>
          (if f = D2C \<or> f = D2L
           then (case setCategoryIndex L v ax of (i, ax') \<Rightarrow> (Inr i, ax'))
           else (conv_category L ax f v, ax))
      | Multicategory \<Rightarrow> (conv_category L ax f v, ax))"


section \<open>Calcdata\<close>

text \<open>
  \<^verbatim>\<open>a[i]\<close> on a value: a member of an array, a character of a string,
  \<^verbatim>\<open>undefined\<close> on a number or another object, a \<^verbatim>\<open>TypeError\<close> on \<^verbatim>\<open>null\<close> and
  \<^verbatim>\<open>undefined\<close>.
\<close>

definition js_index :: "jsval \<Rightarrow> nat \<Rightarrow> error + jsval" where
  "js_index a i =
     (case a of
        JArr xs \<Rightarrow> Inr (js_nth xs i)
      | JStr s \<Rightarrow> Inr (if i < length s then JStr [s ! i] else JUndefined)
      | JNum n \<Rightarrow> Inr JUndefined
      | JObj k \<Rightarrow> Inr JUndefined
      | _ \<Rightarrow> Inl TypeError)"

text \<open>\<^verbatim>\<open>(arrayIn[k] || [])[i]\<close> of \<^verbatim>\<open>setMultiCategoryIndex\<close>.\<close>

definition rowItem :: "jsval \<Rightarrow> nat \<Rightarrow> nat \<Rightarrow> error + jsval" where
  "rowItem arrayIn k i =
     (case js_index arrayIn k of
        Inl e \<Rightarrow> Inl e
      | Inr row \<Rightarrow> if js_truthy row then js_index row i else Inr JUndefined)"

text \<open>
  \<^verbatim>\<open>setMultiCategoryIndex(arrayIn, len)\<close>: the index of each pair of the two rows, by
  \<^verbatim>\<open>getCategoryIndex\<close>, which enters nothing.
\<close>

fun mapM :: "('a \<Rightarrow> error + 'b) \<Rightarrow> 'a list \<Rightarrow> error + 'b list" where
  "mapM f [] = Inr []"
| "mapM f (x # xs) =
     (case f x of
        Inl e \<Rightarrow> Inl e
      | Inr y \<Rightarrow> (case mapM f xs of Inl e \<Rightarrow> Inl e | Inr ys \<Rightarrow> Inr (y # ys)))"

definition setMultiCategoryIndex :: "lib \<Rightarrow> axis \<Rightarrow> jsval \<Rightarrow> nat \<Rightarrow> error + jsval list" where
  "setMultiCategoryIndex L ax arrayIn len =
     mapM (\<lambda>i. case rowItem arrayIn 0 i of
                  Inl e \<Rightarrow> Inl e
                | Inr v0 \<Rightarrow>
                    (case rowItem arrayIn 1 i of
                       Inl e \<Rightarrow> Inl e
                     | Inr v1 \<Rightarrow> Inr (getCategoryIndex L ax (JArr [v0, v1]))))
          [0 ..< len]"

text \<open>The loop \<^verbatim>\<open>arrayOut[i] = ax.d2c(arrayIn[i], 0, cal)\<close>.\<close>

fun d2cLoop :: "lib \<Rightarrow> jsval \<Rightarrow> jsval \<Rightarrow> nat list \<Rightarrow> axis \<Rightarrow> (error + jsval list) \<times> axis" where
  "d2cLoop L arrayIn cal [] ax = (Inr [], ax)"
| "d2cLoop L arrayIn cal (i # rest) ax =
     (case js_index arrayIn i of
        Inl e \<Rightarrow> (Inl e, ax)
      | Inr v \<Rightarrow>
          (case convert L D2C v (JNum (Fin 0)) cal ax of
             (Inl e, ax1) \<Rightarrow> (Inl e, ax1)
           | (Inr c, ax1) \<Rightarrow>
               (case d2cLoop L arrayIn cal rest ax1 of
                  (Inl e, ax2) \<Rightarrow> (Inl e, ax2)
                | (Inr cs, ax2) \<Rightarrow> (Inr (c # cs), ax2))))"

text \<open>
  \<^verbatim>\<open>trace._length || arrayIn.length\<close> for the opposing data: \<open>None\<close> stands for
  \<^verbatim>\<open>undefined\<close>, the length of a number.
\<close>

definition oppositeLen :: "trace \<Rightarrow> jsval option \<Rightarrow> error + nat option" where
  "oppositeLen tr opp =
     (case tr_length tr of
        Some (Suc n) \<Rightarrow> Inr (Some (Suc n))
      | _ \<Rightarrow>
          (case opp of
             Some (JArr xs) \<Rightarrow> Inr (Some (length xs))
           | Some (JStr s) \<Rightarrow> Inr (Some (length s))
           | Some (JNum n) \<Rightarrow> Inr None
           | _ \<Rightarrow> Inl TypeError))"

definition otherLetter :: "axletter \<Rightarrow> axletter" where
  "otherLetter l = (case l of X \<Rightarrow> Y | Y \<Rightarrow> X)"

text \<open>
  \<^verbatim>\<open>ax.makeCalcdata(trace, axLetter)\<close>. Typed arrays are not among the modelled
  values, so the branch that hands a typed array through is not taken.
\<close>

definition makeCalcdata :: "lib \<Rightarrow> trace \<Rightarrow> axletter \<Rightarrow> axis \<Rightarrow> (error + jsval list) \<times> axis" where
  "makeCalcdata L tr axLetter ax =
     (let cal = (if ax_type ax = Date then tr_calendar tr axLetter else JUndefined)
      in case tr_field tr axLetter of
           Some arrayIn \<Rightarrow>
             (let len = traceLen L tr arrayIn
              in if ax_type ax = Multicategory
                 then (setMultiCategoryIndex L ax arrayIn len, ax)
                 else d2cLoop L arrayIn cal [0 ..< len] ax)
         | None \<Rightarrow>
             (case (case tr_start tr axLetter of
                      Some s \<Rightarrow> convert L D2C s (JNum (Fin 0)) cal ax
                    | None \<Rightarrow> (Inr (JNum (Fin 0)), ax)) of
                (Inl e, ax1) \<Rightarrow> (Inl e, ax1)
              | (Inr v0, ax1) \<Rightarrow>
                  (let dv = (case tr_delta tr axLetter of
                               Some d \<Rightarrow> if js_truthy d then toNumber L d else Fin 1
                             | None \<Rightarrow> Fin 1)
                   in case oppositeLen tr (tr_field tr (otherLetter axLetter)) of
                        Inl e \<Rightarrow> (Inl e, ax1)
                      | Inr None \<Rightarrow> (Inr [JUndefined], ax1)
                      | Inr (Some len) \<Rightarrow>
                          (Inr (map (\<lambda>i. js_plus L v0 (JNum (nmul (Fin (real i)) dv))) [0 ..< len]),
                           ax1))))"



text \<open>
  A trace with \<^verbatim>\<open>x0 = "b"\<close> and the declared length 3 that has neither \<^verbatim>\<open>x\<close> nor
  \<^verbatim>\<open>y\<close>.
\<close>

definition tr_decl :: trace where
  "tr_decl = \<lparr> tr_field = (\<lambda>l. None),
               tr_length = Some 3,
               tr_start = (\<lambda>l. case l of X \<Rightarrow> Some (JStr ''b'') | Y \<Rightarrow> None),
               tr_delta = (\<lambda>l. None),
               tr_calendar = (\<lambda>l. JUndefined) \<rparr>"

text \<open>
  A category axis with the one category \<^verbatim>\<open>"a"\<close>, showing \<^verbatim>\<open>[0, 4]\<close> with slope 80
  and intercept 0, and the same axis without a range.
\<close>

definition ax_cat :: axis where
  "ax_cat = ax0\<lparr>categories := [JStr ''a''],
                 categoriesMap := Some [''a'' \<mapsto> JNum (Fin 0)],
                 range := Some [JNum (Fin 0), JNum (Fin 4)],
                 ax_offset := Fin 0, ax_length := Fin 320, ax_m := Fin 80, ax_b := Fin 0\<rparr>"



text \<open>A trace whose rows \<^verbatim>\<open>[["y","x","x"],["1","2","1"]]\<close> are not in rank order.\<close>

definition tr_yx :: trace where
  "tr_yx = \<lparr> tr_field = (\<lambda>l. case l of
                 X \<Rightarrow> Some (JArr [JArr [JStr ''y'', JStr ''x'', JStr ''x''],
                                   JArr [JStr ''1'', JStr ''2'', JStr ''1'']])
               | Y \<Rightarrow> None),
             tr_length = None, tr_start = (\<lambda>l. None), tr_delta = (\<lambda>l. None),
             tr_calendar = (\<lambda>l. JUndefined) \<rparr>"

section \<open>Properties of the category registry\<close>

lemma obj_get_own: "m k = Some v \<Longrightarrow> obj_get m k = v"
  by (simp add: obj_get_def)

lemma obj_get_plain: "k \<notin> set protoKeys \<Longrightarrow> m k = None \<Longrightarrow> obj_get m k = JUndefined"
  by (simp add: obj_get_def)

lemma obj_get_inherited: "k \<in> set protoKeys \<Longrightarrow> m k = None \<Longrightarrow> obj_get m k = JObj k"
  by (simp add: obj_get_def)

lemma sci_invalid: "\<not> isValidCategory v \<Longrightarrow> setCategoryIndex L v ax = (BADNUM, ax)"
  by (simp add: setCategoryIndex_def)

lemma sci_found:
  assumes "isValidCategory v" "obj_get (cmap_of ax) (toKey L v) \<noteq> JUndefined"
  shows "fst (setCategoryIndex L v ax) = obj_get (cmap_of ax) (toKey L v)"
    and "categories (snd (setCategoryIndex L v ax)) = categories ax"
    and "cmap_of (snd (setCategoryIndex L v ax)) = cmap_of ax"
  using assms by (auto simp: setCategoryIndex_def cmap_of_def Let_def split: option.splits)

lemma sci_new:
  assumes "isValidCategory v" "obj_get (cmap_of ax) (toKey L v) = JUndefined"
  shows "fst (setCategoryIndex L v ax) = JNum (Fin (real (length (categories ax))))"
    and "categories (snd (setCategoryIndex L v ax)) = categories ax @ [v]"
    and "cmap_of (snd (setCategoryIndex L v ax)) =
           (cmap_of ax)(toKey L v \<mapsto> JNum (Fin (real (length (categories ax)))))"
  using assms by (auto simp: setCategoryIndex_def cmap_of_def Let_def split: option.splits)

lemma inv_lookup:
  assumes "reg_inv L ax"
  shows "cmap_of ax k = None \<longleftrightarrow> k \<notin> set (map (toKey L) (categories ax))"
  using assms unfolding reg_inv_def by (metis domIff)

lemma inv_get_listed:
  assumes "reg_inv L ax" "n < length (categories ax)"
  shows "obj_get (cmap_of ax) (toKey L (categories ax ! n)) = JNum (Fin (real n))"
  using assms by (simp add: reg_inv_def obj_get_def)

lemma inv_get_undefined:
  assumes "reg_inv L ax" "obj_get (cmap_of ax) k = JUndefined"
  shows "k \<notin> set (map (toKey L) (categories ax))"
proof
  assume "k \<in> set (map (toKey L) (categories ax))"
  then obtain n where "n < length (categories ax)" "toKey L (categories ax ! n) = k"
    by (auto simp: in_set_conv_nth)
  then have "obj_get (cmap_of ax) k = JNum (Fin (real n))"
    using inv_get_listed[OF assms(1)] by blast
  then show False using assms(2) by simp
qed

lemma sci_inv:
  assumes inv: "reg_inv L ax"
  shows "reg_inv L (snd (setCategoryIndex L v ax))"
proof (cases "isValidCategory v")
  case False
  then show ?thesis using inv by (simp add: sci_invalid)
next
  case valid: True
  show ?thesis
  proof (cases "obj_get (cmap_of ax) (toKey L v) = JUndefined")
    case False
    then show ?thesis using inv sci_found[OF valid False] by (simp add: reg_inv_def)
  next
    case True
    note new = sci_new[OF valid True]
    have notin: "toKey L v \<notin> set (map (toKey L) (categories ax))"
      using True inv by (rule inv_get_undefined[rotated])
    have ne: "\<forall>n < length (categories ax). toKey L (categories ax ! n) \<noteq> toKey L v"
      using notin by (metis image_eqI nth_mem set_map)
    show ?thesis
      unfolding reg_inv_def new
      using inv notin ne
      by (auto simp: reg_inv_def nth_append less_Suc_eq)
  qed
qed

lemma emptyCategories_inv: "reg_inv L (emptyCategories ax)"
  by (simp add: reg_inv_def emptyCategories_def cmap_of_def)

lemma sci_indices_inv:
  "reg_inv L ax \<Longrightarrow> reg_inv L (snd (setCategoryIndices L vs ax))"
proof (induction vs arbitrary: ax)
  case Nil
  then show ?case by simp
next
  case (Cons v vs)
  have "reg_inv L (snd (setCategoryIndex L v ax))"
    using Cons.prems by (rule sci_inv)
  then have "reg_inv L (snd (setCategoryIndices L vs (snd (setCategoryIndex L v ax))))"
    by (rule Cons.IH)
  then show ?case by (simp add: split_beta Let_def)
qed

text \<open>
  On a consistent registry \<^verbatim>\<open>setCategoryIndex\<close> does what its comment says for every
  label but those whose key names a member of \<^verbatim>\<open>Object.prototype\<close> and is not
  registered: an invalid label gives \<^verbatim>\<open>BADNUM\<close>, a registered label its index, and any
  other label is appended and gets the next index.
\<close>

lemma setCategoryIndex_own_keys:
  assumes inv: "reg_inv L ax"
  shows "(\<not> isValidCategory v \<longrightarrow> setCategoryIndex L v ax = (BADNUM, ax)) \<and>
         (isValidCategory v \<and> toKey L v \<in> set (map (toKey L) (categories ax)) \<longrightarrow>
            (\<exists>n < length (categories ax).
               toKey L (categories ax ! n) = toKey L v \<and>
               fst (setCategoryIndex L v ax) = JNum (Fin (real n))) \<and>
            categories (snd (setCategoryIndex L v ax)) = categories ax \<and>
            cmap_of (snd (setCategoryIndex L v ax)) = cmap_of ax) \<and>
         (isValidCategory v \<and> toKey L v \<notin> set (map (toKey L) (categories ax)) \<and>
          toKey L v \<notin> set protoKeys \<longrightarrow>
            fst (setCategoryIndex L v ax) = JNum (Fin (real (length (categories ax)))) \<and>
            categories (snd (setCategoryIndex L v ax)) = categories ax @ [v] \<and>
            cmap_of (snd (setCategoryIndex L v ax)) =
              (cmap_of ax)(toKey L v \<mapsto> JNum (Fin (real (length (categories ax)))))) \<and>
         (isValidCategory v \<and> toKey L v \<notin> set (map (toKey L) (categories ax)) \<and>
          toKey L v \<in> set protoKeys \<longrightarrow>
            setCategoryIndex L v ax = (JObj (toKey L v), ax\<lparr>categoriesMap := Some (cmap_of ax)\<rparr>)) \<and>
         reg_inv L (snd (setCategoryIndex L v ax))"
proof (intro conjI impI)
  assume "\<not> isValidCategory v"
  then show "setCategoryIndex L v ax = (BADNUM, ax)" by (rule sci_invalid)
next
  assume a: "isValidCategory v \<and> toKey L v \<in> set (map (toKey L) (categories ax))"
  then obtain n where n: "n < length (categories ax)" "toKey L (categories ax ! n) = toKey L v"
    by (auto simp: in_set_conv_nth)
  then have look: "obj_get (cmap_of ax) (toKey L v) = JNum (Fin (real n))"
    using inv_get_listed[OF inv] by metis
  then have ne: "obj_get (cmap_of ax) (toKey L v) \<noteq> JUndefined" by simp
  from a have valid: "isValidCategory v" by simp
  show "\<exists>n < length (categories ax).
          toKey L (categories ax ! n) = toKey L v \<and>
          fst (setCategoryIndex L v ax) = JNum (Fin (real n))"
    using n sci_found(1)[OF valid ne] look by auto
  show "categories (snd (setCategoryIndex L v ax)) = categories ax"
    by (rule sci_found(2)[OF valid ne])
  show "cmap_of (snd (setCategoryIndex L v ax)) = cmap_of ax"
    by (rule sci_found(3)[OF valid ne])
next
  assume a: "isValidCategory v \<and> toKey L v \<notin> set (map (toKey L) (categories ax)) \<and>
          toKey L v \<notin> set protoKeys"
  then have valid: "isValidCategory v" and look: "obj_get (cmap_of ax) (toKey L v) = JUndefined"
    using inv_lookup[OF inv] by (auto intro: obj_get_plain)
  show "fst (setCategoryIndex L v ax) = JNum (Fin (real (length (categories ax))))"
    by (rule sci_new(1)[OF valid look])
  show "categories (snd (setCategoryIndex L v ax)) = categories ax @ [v]"
    by (rule sci_new(2)[OF valid look])
  show "cmap_of (snd (setCategoryIndex L v ax)) =
          (cmap_of ax)(toKey L v \<mapsto> JNum (Fin (real (length (categories ax)))))"
    by (rule sci_new(3)[OF valid look])
next
  assume a: "isValidCategory v \<and> toKey L v \<notin> set (map (toKey L) (categories ax)) \<and>
          toKey L v \<in> set protoKeys"
  then have "cmap_of ax (toKey L v) = None" using inv_lookup[OF inv] by simp
  then have "obj_get (cmap_of ax) (toKey L v) = JObj (toKey L v)"
    using a by (simp add: obj_get_inherited)
  then show "setCategoryIndex L v ax = (JObj (toKey L v), ax\<lparr>categoriesMap := Some (cmap_of ax)\<rparr>)"
    using a by (simp add: setCategoryIndex_def cmap_of_def Let_def)
next
  show "reg_inv L (snd (setCategoryIndex L v ax))" using inv by (rule sci_inv)
qed

text \<open>
  Entering \<^verbatim>\<open>["b","a","b","c"]\<close> in a cleared registry gives the indices 0, 1, 0, 2
  and the categories \<^verbatim>\<open>["b","a","c"]\<close>.
\<close>

lemma example_run:
  "setCategoryIndices L [JStr ''b'', JStr ''a'', JStr ''b'', JStr ''c''] (emptyCategories ax) =
     ([JNum (Fin 0), JNum (Fin 1), JNum (Fin 0), JNum (Fin 2)],
      ax\<lparr>categories := [JStr ''b'', JStr ''a'', JStr ''c''],
         categoriesMap := Some [''b'' \<mapsto> JNum (Fin 0), ''a'' \<mapsto> JNum (Fin 1), ''c'' \<mapsto> JNum (Fin 2)]\<rparr>)"
  by (simp add: setCategoryIndex_def obj_get_def protoKeys_def emptyCategories_def Let_def)

text \<open>
  C5: the label \<^verbatim>\<open>"constructor"\<close> is a valid category that is not registered, yet on
  a cleared registry \<^verbatim>\<open>setCategoryIndex\<close> returns the inherited member
  \<^verbatim>\<open>Object.prototype.constructor\<close> instead of the next index, and enters nothing:
  \<^verbatim>\<open>ax._categoriesMap[v] !== undefined\<close> holds for it on the empty object literal.
\<close>

theorem setCategoryIndex_inherited_key:
  "setCategoryIndex L0 (JStr ''constructor'') (emptyCategories ax0) =
     (JObj ''constructor'', emptyCategories ax0) \<and>
   categories (snd (setCategoryIndex L0 (JStr ''constructor'') (emptyCategories ax0))) = [] \<and>
   isValidCategory (JStr ''constructor'') \<and>
   getCategoryIndex L0 (emptyCategories ax0) (JStr ''constructor'') = JObj ''constructor''"
  by (simp add: setCategoryIndex_def getCategoryIndex_def obj_get_def protoKeys_def
        emptyCategories_def Let_def)

section \<open>Properties of the multicategory order\<close>

lemma see_plain:
  "k \<notin> set protoKeys \<Longrightarrow>
   see k s = (case snd s k of Some r \<Rightarrow> s | None \<Rightarrow> (fst s + 1, (snd s)(k \<mapsto> fst s)))"
  by (simp add: see_def obj_in_def split: option.splits)

lemma rank_snoc_old:
  "k \<in> set ks \<Longrightarrow> appearanceRank (ks @ [k']) k = appearanceRank ks k"
  by (simp add: appearanceRank_def)

lemma rank_snoc_new:
  "k \<notin> set ks \<Longrightarrow> appearanceRank (ks @ [k]) k = length (remdups ks)"
proof -
  assume "k \<notin> set ks"
  then have "takeWhile (\<lambda>x. x \<noteq> k) (ks @ [k]) = ks"
    by (induction ks) auto
  then show ?thesis by (simp add: appearanceRank_def)
qed

lemma remdups_snoc_len:
  "length (remdups (ks @ [k])) = (if k \<in> set ks then length (remdups ks) else Suc (length (remdups ks)))"
  by (induction ks) auto

lemma see_inv:
  assumes "seen_inv s ks" "k \<notin> set protoKeys"
  shows "seen_inv (see k s) (ks @ [k])"
proof (cases "k \<in> set ks")
  case True
  then have "see k s = s" using assms by (simp add: see_plain seen_inv_def)
  then show ?thesis using assms True
    by (auto simp: seen_inv_def remdups_snoc_len rank_snoc_old)
next
  case False
  then have "see k s = (fst s + 1, (snd s)(k \<mapsto> fst s))"
    using assms by (simp add: see_plain seen_inv_def)
  then show ?thesis using assms False
    by (auto simp: seen_inv_def remdups_snoc_len rank_snoc_old rank_snoc_new)
qed

lemma pairStep_list:
  "snd (snd (pairStep L r0 r1 j st)) =
     snd (snd st) @
       (if isValidCategory (js_nth r0 j) \<and> isValidCategory (js_nth r1 j)
        then [JArr [js_nth r0 j, js_nth r1 j]] else [])"
  by (cases st) (simp add: pairStep_def Let_def)

lemma pairStep_inv:
  assumes "mc_inv L st"
      and "isValidCategory (js_nth r0 j) \<and> isValidCategory (js_nth r1 j) \<longrightarrow>
           plainPair L (JArr [js_nth r0 j, js_nth r1 j])"
  shows "mc_inv L (pairStep L r0 r1 j st)"
proof (cases st)
  case (fields s0 s1 list)
  show ?thesis
  proof (cases "isValidCategory (js_nth r0 j) \<and> isValidCategory (js_nth r1 j)")
    case False
    then show ?thesis using assms by (auto simp: pairStep_def Let_def)
  next
    case True
    then have p0: "toKey L (js_nth r0 j) \<notin> set protoKeys"
      and p1: "toKey L (js_nth r1 j) \<notin> set protoKeys"
      using assms(2) by (simp_all add: plainPair_def firstKey_def secondKey_def)
    have a: "seen_inv (see (toKey L (js_nth r0 j)) s0)
               (map (firstKey L) list @ [toKey L (js_nth r0 j)])"
      using assms(1) fields p0 by (intro see_inv) (simp_all add: mc_inv_def)
    have b: "seen_inv (see (toKey L (js_nth r1 j)) s1)
               (map (secondKey L) list @ [toKey L (js_nth r1 j)])"
      using assms(1) fields p1 by (intro see_inv) (simp_all add: mc_inv_def)
    show ?thesis using True a b assms(1) fields
      by (simp add: pairStep_def Let_def mc_inv_def isPair_def firstKey_def secondKey_def)
  qed
qed

lemma fold_pairStep_list:
  "snd (snd (fold (pairStep L r0 r1) js st)) =
     snd (snd st) @
       map (\<lambda>j. JArr [js_nth r0 j, js_nth r1 j])
         (filter (\<lambda>j. isValidCategory (js_nth r0 j) \<and> isValidCategory (js_nth r1 j)) js)"
  by (induction js arbitrary: st) (simp_all add: pairStep_list)

lemma fold_pairStep_inv:
  assumes "mc_inv L st"
      and "\<forall>p \<in> set (map (\<lambda>j. JArr [js_nth r0 j, js_nth r1 j])
              (filter (\<lambda>j. isValidCategory (js_nth r0 j) \<and> isValidCategory (js_nth r1 j)) js)).
             plainPair L p"
  shows "mc_inv L (fold (pairStep L r0 r1) js st)"
  using assms
proof (induction js arbitrary: st)
  case Nil
  then show ?case by simp
next
  case (Cons j js)
  have "mc_inv L (pairStep L r0 r1 j st)"
    using Cons.prems by (intro pairStep_inv) auto
  then show ?case using Cons.IH Cons.prems(2) by simp
qed

lemma traceStep_ok:
  assumes "traceStep L ax fullData idx st = Inr st'" "mc_inv L st"
      and "\<forall>p \<in> set (tracePairs L ax (fullData ! idx)). plainPair L p"
  shows "mc_inv L st' \<and> snd (snd st') = snd (snd st) @ tracePairs L ax (fullData ! idx)"
  using assms
  by (auto simp: traceStep_def tracePairs_def Let_def fold_pairStep_list
           intro!: fold_pairStep_inv
           split: if_splits option.splits jsval.splits list.splits)

lemma traceLoop_ok:
  assumes "traceLoop L ax fullData idxs st = Inr st'" "mc_inv L st"
      and "\<forall>p \<in> set (observedPairs L ax fullData idxs). plainPair L p"
  shows "mc_inv L st' \<and> snd (snd st') = snd (snd st) @ observedPairs L ax fullData idxs"
  using assms
proof (induction idxs arbitrary: st)
  case Nil
  then show ?case by (simp add: observedPairs_def)
next
  case (Cons idx rest)
  then obtain st1 where s1: "traceStep L ax fullData idx st = Inr st1"
    and r: "traceLoop L ax fullData rest st1 = Inr st'"
    by (auto split: sum.splits)
  have pl1: "\<forall>p \<in> set (tracePairs L ax (fullData ! idx)). plainPair L p"
    and pl2: "\<forall>p \<in> set (observedPairs L ax fullData rest). plainPair L p"
    using Cons.prems(3) by (simp_all add: observedPairs_def)
  from traceStep_ok[OF s1 Cons.prems(2) pl1] have
    i1: "mc_inv L st1" and l1: "snd (snd st1) = snd (snd st) @ tracePairs L ax (fullData ! idx)"
    by simp_all
  from Cons.IH[OF r i1 pl2] show ?case using l1 by (simp add: observedPairs_def)
qed

lemma mc_inv_init: "mc_inv L ((0, Map.empty), (0, Map.empty), [])"
  by (simp add: mc_inv_def seen_inv_def)

lemma isPair_iff: "isPair p \<longleftrightarrow> (\<exists>v0 v1. p = JArr [v0, v1])"
proof (cases p)
  case (JArr xs)
  then show ?thesis
    by (cases xs rule: list.exhaust; simp add: isPair_def split: list.splits)
qed (simp_all add: isPair_def)

lemma pairRank_spec:
  assumes "mc_inv L (s0, s1, list)" "p \<in> set list"
  shows "pairRank L s0 s1 p = specRank L list p"
proof -
  from assms obtain v0 v1 where p: "p = JArr [v0, v1]"
    by (auto simp: mc_inv_def isPair_iff)
  have k0: "toKey L v0 \<in> set (map (firstKey L) list)"
    using assms(2) p by (force simp: firstKey_def)
  have k1: "toKey L v1 \<in> set (map (secondKey L) list)"
    using assms(2) p by (force simp: secondKey_def)
  show ?thesis using assms(1) k0 k1 p
    by (simp add: mc_inv_def seen_inv_def pairRank_def specRank_def rankOf_def
                  firstKey_def secondKey_def)
qed

lemma rankVal_ranked:
  assumes "mc_inv L (s0, s1, list)" "JArr [v0, v1] \<in> set list"
  shows "rankVal s0 (toKey L v0) = JNum (Fin (real (rankOf s0 (toKey L v0))))"
    and "rankVal s1 (toKey L v1) = JNum (Fin (real (rankOf s1 (toKey L v1))))"
proof -
  have k0: "toKey L v0 \<in> set (map (firstKey L) list)"
    using assms(2) by (force simp: firstKey_def)
  have k1: "toKey L v1 \<in> set (map (secondKey L) list)"
    using assms(2) by (force simp: secondKey_def)
  show "rankVal s0 (toKey L v0) = JNum (Fin (real (rankOf s0 (toKey L v0))))"
    using assms(1) k0 by (simp add: mc_inv_def seen_inv_def rankVal_def rankOf_def)
  show "rankVal s1 (toKey L v1) = JNum (Fin (real (rankOf s1 (toKey L v1))))"
    using assms(1) k1 by (simp add: mc_inv_def seen_inv_def rankVal_def rankOf_def)
qed

lemma pairCmp_ranked:
  assumes inv: "mc_inv L (s0, s1, list)" and p: "p \<in> set list" and q: "q \<in> set list"
  shows "nless (Fin 0) (pairCmp L s0 s1 p q) \<longleftrightarrow> pairRank L s0 s1 q < pairRank L s0 s1 p"
proof -
  from inv p obtain a0 a1 where pa: "p = JArr [a0, a1]"
    by (auto simp: mc_inv_def isPair_iff)
  from inv q obtain b0 b1 where qb: "q = JArr [b0, b1]"
    by (auto simp: mc_inv_def isPair_iff)
  note ra = rankVal_ranked[OF inv p[unfolded pa]]
  note rb = rankVal_ranked[OF inv q[unfolded qb]]
  show ?thesis
    unfolding pa qb
    by (simp add: pairCmp_def pairItem_def js_nth_def ra rb toNumber_def nsub_def Let_def
          pairRank_def)
       (auto)
qed

text \<open>
  The insertion sort by a comparator agrees with the stable sort by a key whenever the
  comparator is positive exactly on the pairs the key puts out of order.
\<close>

lemma js_sort_snoc: "js_sort cmp (xs @ [x]) = js_insert cmp x (js_sort cmp xs)"
  by (simp add: js_sort_def)

lemma js_insert_split:
  "ys = rev (dropWhile P (rev ys)) @ rev (takeWhile P (rev ys))"
proof -
  have "rev (dropWhile P (rev ys)) @ rev (takeWhile P (rev ys)) =
          rev (takeWhile P (rev ys) @ dropWhile P (rev ys))"
    by (simp only: rev_append)
  also have "\<dots> = rev (rev ys)" by (simp only: takeWhile_dropWhile_id)
  finally show ?thesis by simp
qed

lemma js_insert_mset: "mset (js_insert cmp x ys) = add_mset x (mset ys)"
proof -
  let ?P = "\<lambda>e. nless (Fin 0) (cmp e x)"
  have "mset ys = mset (rev (dropWhile ?P (rev ys))) + mset (rev (takeWhile ?P (rev ys)))"
    by (subst js_insert_split[of ys ?P]) simp
  then show ?thesis by (simp add: js_insert_def)
qed

lemma js_sort_mset: "mset (js_sort cmp xs) = mset xs"
  by (induction xs rule: rev_induct) (simp_all add: js_sort_snoc js_insert_mset js_sort_def)

lemma js_sort_set: "set (js_sort cmp xs) = set xs"
  using js_sort_mset[of cmp xs] by (metis set_mset_mset)

lemma js_insert_filter:
  assumes "\<forall>e \<in> set ys. nless (Fin 0) (cmp e x) \<longrightarrow> \<not> (Q e \<and> Q x)"
  shows "filter Q (js_insert cmp x ys) = filter Q (ys @ [x])"
proof -
  let ?P = "\<lambda>e. nless (Fin 0) (cmp e x)"
  let ?D = "rev (dropWhile ?P (rev ys))"
  let ?T = "rev (takeWhile ?P (rev ys))"
  have ys: "ys = ?D @ ?T" by (rule js_insert_split)
  have T: "\<forall>e \<in> set ?T. ?P e \<and> e \<in> set ys"
    by (auto dest: set_takeWhileD)
  show ?thesis
  proof (cases "Q x")
    case True
    have "filter Q ?T = []"
      using T assms True by (auto simp: filter_empty_conv)
    moreover have "filter Q ys = filter Q ?D @ filter Q ?T"
      by (subst ys) simp
    ultimately show ?thesis using True by (simp add: js_insert_def)
  next
    case False
    have "filter Q ys = filter Q ?D @ filter Q ?T"
      by (subst ys) simp
    then show ?thesis using False by (simp add: js_insert_def)
  qed
qed

lemma dropWhile_desc_le:
  fixes f :: "'a \<Rightarrow> 'b::linorder"
  assumes "sorted (map f (rev r))" "\<forall>e \<in> set r. P e \<longleftrightarrow> f x < f e"
  shows "\<forall>a \<in> set (dropWhile P r). f a \<le> f x"
  using assms
proof (induction r)
  case Nil
  then show ?case by simp
next
  case (Cons e es)
  have s: "sorted (map f (rev es))" and le: "\<forall>a \<in> set es. f a \<le> f e"
    using Cons.prems(1) by (auto simp: sorted_append)
  show ?case
  proof (cases "P e")
    case True
    then show ?thesis using Cons.IH[OF s] Cons.prems(2) by simp
  next
    case False
    then have "f e \<le> f x" using Cons.prems(2) by auto
    then show ?thesis using False le by (auto intro: order_trans)
  qed
qed

lemma js_insert_sorted:
  fixes f :: "'a \<Rightarrow> 'b::linorder"
  assumes srt: "sorted (map f ys)"
      and cons: "\<forall>e \<in> set ys. nless (Fin 0) (cmp e x) \<longleftrightarrow> f x < f e"
  shows "sorted (map f (js_insert cmp x ys))"
proof -
  let ?P = "\<lambda>e. nless (Fin 0) (cmp e x)"
  let ?D = "rev (dropWhile ?P (rev ys))"
  let ?T = "rev (takeWhile ?P (rev ys))"
  have ys: "ys = ?D @ ?T" by (rule js_insert_split)
  have "sorted (map f (?D @ ?T))" using srt ys by simp
  then have sD: "sorted (map f ?D)" and sT: "sorted (map f ?T)"
    and DT: "\<forall>a \<in> set ?D. \<forall>b \<in> set ?T. f a \<le> f b"
    by (auto simp: sorted_append)
  have T: "\<forall>b \<in> set ?T. f x < f b"
    using cons by (auto dest: set_takeWhileD)
  have D: "\<forall>a \<in> set ?D. f a \<le> f x"
    using dropWhile_desc_le[of f "rev ys" ?P x] srt cons by simp
  show ?thesis
    using sD sT DT T D
    by (auto simp: js_insert_def sorted_append intro: less_imp_le)
qed

lemma js_sort_sort_key:
  fixes f :: "'a \<Rightarrow> 'b::linorder"
  assumes "\<forall>e \<in> set xs. \<forall>x \<in> set xs. nless (Fin 0) (cmp e x) \<longleftrightarrow> f x < f e"
  shows "js_sort cmp xs = sort_key f xs"
proof -
  have "mset (js_sort cmp xs) = mset xs \<and> sorted (map f (js_sort cmp xs)) \<and>
        (\<forall>k. filter (\<lambda>y. f k = f y) (js_sort cmp xs) = filter (\<lambda>y. f k = f y) xs)"
    using assms
  proof (induction xs rule: rev_induct)
    case Nil
    then show ?case by (simp add: js_sort_def)
  next
    case (snoc x xs)
    have ih: "mset (js_sort cmp xs) = mset xs" "sorted (map f (js_sort cmp xs))"
      "\<forall>k. filter (\<lambda>y. f k = f y) (js_sort cmp xs) = filter (\<lambda>y. f k = f y) xs"
      using snoc by auto
    have st: "set (js_sort cmp xs) = set xs" by (rule js_sort_set)
    have cons: "\<forall>e \<in> set (js_sort cmp xs). nless (Fin 0) (cmp e x) \<longleftrightarrow> f x < f e"
      using snoc.prems st by auto
    have m: "mset (js_sort cmp (xs @ [x])) = mset (xs @ [x])"
      by (simp add: js_sort_snoc js_insert_mset ih(1))
    have s: "sorted (map f (js_sort cmp (xs @ [x])))"
      unfolding js_sort_snoc
      by (rule js_insert_sorted[where f=f and cmp=cmp and x=x, OF ih(2) cons])
    have fl: "filter (\<lambda>y. f k = f y) (js_sort cmp (xs @ [x])) = filter (\<lambda>y. f k = f y) (xs @ [x])" for k
    proof -
      have "filter (\<lambda>y. f k = f y) (js_insert cmp x (js_sort cmp xs)) =
              filter (\<lambda>y. f k = f y) (js_sort cmp xs @ [x])"
        using cons by (intro js_insert_filter) auto
      then show ?thesis using ih(3) by (simp add: js_sort_snoc)
    qed
    show ?case using m s fl by blast
  qed
  then show ?thesis
    by (intro properties_for_sort_key[symmetric]) auto
qed

lemma sort_key_cong_set:
  assumes "\<forall>x \<in> set xs. f x = g x"
  shows "sort_key f xs = sort_key g xs"
  using assms
proof (induction xs)
  case Nil
  then show ?case by simp
next
  case (Cons x xs)
  then have ih: "sort_key f xs = sort_key g xs" by simp
  have "insort_key f x ys = insort_key g x ys" if "\<forall>y \<in> set ys. f y = g y" for ys
    using that Cons.prems by (induction ys) auto
  then have "insort_key f x (sort_key g xs) = insort_key g x (sort_key g xs)"
    using Cons.prems by simp
  then show ?case using ih by simp
qed

lemma protoKeys_no_comma: "k \<in> set protoKeys \<Longrightarrow> CHR '','' \<notin> set k"
  by (auto simp: protoKeys_def)

lemma pair_key_not_inherited: "toKey L (JArr [v0, v1]) \<notin> set protoKeys"
proof
  assume "toKey L (JArr [v0, v1]) \<in> set protoKeys"
  then have "CHR '','' \<notin> set (toKey L (JArr [v0, v1]))" by (rule protoKeys_no_comma)
  then show False by simp
qed

lemma sci_indices_cats:
  assumes "reg_inv L ax" "\<forall>v \<in> set vs. isValidCategory v \<and> toKey L v \<notin> set protoKeys"
  shows "categories (snd (setCategoryIndices L vs ax)) =
           categories ax @ firstsBy (toKey L) (map (toKey L) (categories ax)) vs"
  using assms
proof (induction vs arbitrary: ax)
  case Nil
  then show ?case by simp
next
  case (Cons v vs)
  let ?ax1 = "snd (setCategoryIndex L v ax)"
  have valid: "isValidCategory v" and plain: "toKey L v \<notin> set protoKeys"
    using Cons.prems(2) by simp_all
  have inv1: "reg_inv L ?ax1" using Cons.prems(1) by (rule sci_inv)
  have ih: "categories (snd (setCategoryIndices L vs ?ax1)) =
              categories ?ax1 @ firstsBy (toKey L) (map (toKey L) (categories ?ax1)) vs"
    using Cons.IH[OF inv1] Cons.prems(2) by simp
  have unfold: "categories (snd (setCategoryIndices L (v # vs) ax)) =
                  categories (snd (setCategoryIndices L vs ?ax1))"
    by (simp add: split_beta Let_def)
  note own = setCategoryIndex_own_keys[OF Cons.prems(1), of v]
  show ?case
  proof (cases "toKey L v \<in> set (map (toKey L) (categories ax))")
    case True
    then have "categories ?ax1 = categories ax"
      using own valid by blast
    then show ?thesis using True ih unfold by simp
  next
    case False
    then have "categories ?ax1 = categories ax @ [v]"
      using own valid plain by blast
    then show ?thesis using False ih unfold by simp
  qed
qed

lemma firstsBy_subset: "set (firstsBy f seen xs) \<subseteq> set xs"
  by (induction xs arbitrary: seen) auto

lemma firstsBy_sorted:
  "sorted (map g xs) \<Longrightarrow> sorted (map g (firstsBy f seen xs))"
proof (induction xs arbitrary: seen)
  case Nil
  then show ?case by simp
next
  case (Cons x xs)
  then show ?case using firstsBy_subset[of f _ xs] by (auto simp: subset_iff)
qed

lemma firstsBy_keys: "f ` set (firstsBy f seen xs) = f ` set xs - set seen"
  by (induction xs arbitrary: seen) auto

text \<open>
  When no key of an observed pair names a member of \<^verbatim>\<open>Object.prototype\<close>,
  \<^verbatim>\<open>setupMultiCategory\<close> on a consistent registry registers the observed pairs in the
  order obtained by sorting them by the appearance-order rank of the first key and then
  of the second key. The pairs are appended to the categories already there, a pair whose
  key is already registered is not entered again, and afterwards the registry holds the
  keys of all observed pairs.
\<close>

lemma setupMultiCategory_order_plain:
  assumes run: "setupMultiCategory L groups fullData ax = Inr ax'"
      and reg: "reg_inv L ax"
      and plain: "\<forall>p \<in> set (observedPairs L ax fullData (gatherTraceIndices ax groups)).
                   plainPair L p"
  shows "(let obs = observedPairs L ax fullData (gatherTraceIndices ax groups);
              new = firstsBy (toKey L) (map (toKey L) (categories ax))
                      (sort_key (specRank L obs) obs)
          in categories ax' = categories ax @ new \<and>
             sorted (map (specRank L obs) new) \<and>
             toKey L ` set (categories ax') = toKey L ` set (categories ax) \<union> toKey L ` set obs \<and>
             reg_inv L ax')"
proof -
  let ?obs = "observedPairs L ax fullData (gatherTraceIndices ax groups)"
  let ?new = "firstsBy (toKey L) (map (toKey L) (categories ax))
                (sort_key (specRank L ?obs) ?obs)"
  from run obtain s0 s1 list where
    loop: "traceLoop L ax fullData (gatherTraceIndices ax groups)
             ((0, Map.empty), (0, Map.empty), []) = Inr (s0, s1, list)"
    and ax': "ax' = snd (setCategoryIndices L (js_sort (pairCmp L s0 s1) list) ax)"
    by (auto simp: setupMultiCategory_def split: sum.splits)
  from traceLoop_ok[OF loop mc_inv_init plain] have
    inv: "mc_inv L (s0, s1, list)" and list: "list = ?obs"
    by auto
  have "js_sort (pairCmp L s0 s1) list = sort_key (pairRank L s0 s1) list"
    using pairCmp_ranked[OF inv] by (intro js_sort_sort_key) simp
  also have "\<dots> = sort_key (specRank L list) list"
    using pairRank_spec[OF inv] by (intro sort_key_cong_set) simp
  finally have rank: "js_sort (pairCmp L s0 s1) list = sort_key (specRank L list) list" .
  have valid: "\<forall>v \<in> set (sort_key (specRank L list) list).
                 isValidCategory v \<and> toKey L v \<notin> set protoKeys"
  proof
    fix v assume "v \<in> set (sort_key (specRank L list) list)"
    then have "v \<in> set list" by simp
    then obtain v0 v1 where "v = JArr [v0, v1]"
      using inv by (auto simp: mc_inv_def isPair_iff)
    then show "isValidCategory v \<and> toKey L v \<notin> set protoKeys"
      using pair_key_not_inherited[of L v0 v1] by simp
  qed
  have "categories ax' = categories ax @
          firstsBy (toKey L) (map (toKey L) (categories ax)) (sort_key (specRank L list) list)"
    using sci_indices_cats[OF reg valid] by (simp add: ax' rank)
  then have cats: "categories ax' = categories ax @ ?new"
    unfolding list .
  have srt: "sorted (map (specRank L ?obs) ?new)"
    by (rule firstsBy_sorted) simp
  have keys: "toKey L ` set (categories ax') = toKey L ` set (categories ax) \<union> toKey L ` set ?obs"
    unfolding cats by (auto simp: firstsBy_keys image_Un)
  have inv': "reg_inv L ax'"
    unfolding ax' using reg by (rule sci_indices_inv)
  show ?thesis using cats srt keys inv' by (simp add: Let_def)
qed

subsection \<open>Runs of the multicategory setup\<close>

lemma axm_fields:
  "ax_letter axm = X" "categories axm = []" "traceIndices axm = [0]"
  "categoriesMap axm = Some Map.empty"
  by (simp_all add: axm_def ax0_def emptyCategories_def)

lemma L0_minRowLength: "minRowLength L0 = std_minRowLength"
  by (simp add: L0_def)

lemma traceStep_list:
  assumes "traceStep L ax fullData idx st = Inr st'"
  shows "snd (snd st') = snd (snd st) @ tracePairs L ax (fullData ! idx)"
  using assms
  by (auto simp: traceStep_def tracePairs_def Let_def fold_pairStep_list
           split: if_splits option.splits jsval.splits list.splits)

lemma traceLoop_list:
  assumes "traceLoop L ax fullData idxs st = Inr st'"
  shows "snd (snd st') = snd (snd st) @ observedPairs L ax fullData idxs"
  using assms
proof (induction idxs arbitrary: st)
  case Nil
  then show ?case by (simp add: observedPairs_def)
next
  case (Cons idx rest)
  then obtain st1 where s1: "traceStep L ax fullData idx st = Inr st1"
    and r: "traceLoop L ax fullData rest st1 = Inr st'"
    by (auto split: sum.splits)
  from traceStep_list[OF s1] Cons.IH[OF r] show ?case
    by (simp add: observedPairs_def)
qed

lemma pairCmp_plain:
  assumes "a \<in> {a0, a1}" "b \<in> {b0, b1}" "c \<in> {a0, a1}" "d \<in> {b0, b1}"
  shows "pairCmp L (n0, [a0 \<mapsto> i0, a1 \<mapsto> i1]) (n1, [b0 \<mapsto> j0, b1 \<mapsto> j1])
     (JArr [JStr a, JStr b]) (JArr [JStr c, JStr d]) =
     (let r = (\<lambda>k. if k = a1 then i1 else i0); q = (\<lambda>k. if k = b1 then j1 else j0)
      in if r a \<noteq> r c then Fin (real (r a) - real (r c)) else Fin (real (q b) - real (q d)))"
  using assms
  by (auto simp: pairCmp_def pairItem_def js_nth_def rankVal_def toNumber_def nsub_def Let_def)

lemma xy_loop:
  "traceLoop L0 axm [tr_xy] (gatherTraceIndices axm []) ((0, Map.empty), (0, Map.empty), []) =
     Inr ((2, [''x'' \<mapsto> 0, ''y'' \<mapsto> 1]), (2, [''1'' \<mapsto> 0, ''2'' \<mapsto> 1]),
          [JArr [JStr ''x'', JStr ''1''], JArr [JStr ''x'', JStr ''2''],
           JArr [JStr ''y'', JStr ''1'']])"
  by (simp add: gatherTraceIndices_def axm_fields traceStep_def tr_xy_def traceLen_def
        L0_minRowLength pairStep_def js_nth_def see_def obj_in_def protoKeys_def Let_def upt_rec)

lemma xy_sort:
  "js_sort (pairCmp L0 (2, [''x'' \<mapsto> 0, ''y'' \<mapsto> 1]) (2, [''1'' \<mapsto> 0, ''2'' \<mapsto> 1]))
     [JArr [JStr ''x'', JStr ''1''], JArr [JStr ''x'', JStr ''2''], JArr [JStr ''y'', JStr ''1'']] =
     [JArr [JStr ''x'', JStr ''1''], JArr [JStr ''x'', JStr ''2''], JArr [JStr ''y'', JStr ''1'']]"
  by (simp add: js_sort_def js_insert_def pairCmp_plain)

text \<open>
  The rows \<^verbatim>\<open>[["x","x","y"],["1","2","1"]]\<close> register \<^verbatim>\<open>["x","1"]\<close>,
  \<^verbatim>\<open>["x","2"]\<close>, \<^verbatim>\<open>["y","1"]\<close> in this order.
\<close>

lemma setup_example:
  "setupMultiCategory L0 [] [tr_xy] axm =
     Inr (axm\<lparr>categories := [JArr [JStr ''x'', JStr ''1''], JArr [JStr ''x'', JStr ''2''],
                              JArr [JStr ''y'', JStr ''1'']],
              categoriesMap := Some [''x,1'' \<mapsto> JNum (Fin 0), ''x,2'' \<mapsto> JNum (Fin 1),
                                     ''y,1'' \<mapsto> JNum (Fin 2)]\<rparr>)"
  unfolding setupMultiCategory_def xy_loop
  by (simp only: sum.case prod.case xy_sort)
     (simp add: setCategoryIndex_def obj_get_def protoKeys_def axm_def ax0_def emptyCategories_def Let_def)

lemma yx_loop:
  "traceLoop L0 axm [tr_yx] (gatherTraceIndices axm []) ((0, Map.empty), (0, Map.empty), []) =
     Inr ((2, [''y'' \<mapsto> 0, ''x'' \<mapsto> 1]), (2, [''1'' \<mapsto> 0, ''2'' \<mapsto> 1]),
          [JArr [JStr ''y'', JStr ''1''], JArr [JStr ''x'', JStr ''2''],
           JArr [JStr ''x'', JStr ''1'']])"
  by (simp add: gatherTraceIndices_def axm_fields traceStep_def tr_yx_def traceLen_def
        L0_minRowLength pairStep_def js_nth_def see_def obj_in_def protoKeys_def Let_def upt_rec)

lemma yx_sort:
  "js_sort (pairCmp L0 (2, [''y'' \<mapsto> 0, ''x'' \<mapsto> 1]) (2, [''1'' \<mapsto> 0, ''2'' \<mapsto> 1]))
     [JArr [JStr ''y'', JStr ''1''], JArr [JStr ''x'', JStr ''2''], JArr [JStr ''x'', JStr ''1'']] =
     [JArr [JStr ''y'', JStr ''1''], JArr [JStr ''x'', JStr ''1''], JArr [JStr ''x'', JStr ''2'']]"
  by (simp add: js_sort_def js_insert_def pairCmp_plain)

text \<open>
  The rows \<^verbatim>\<open>[["y","x","x"],["1","2","1"]]\<close> register \<^verbatim>\<open>["y","1"]\<close>,
  \<^verbatim>\<open>["x","1"]\<close>, \<^verbatim>\<open>["x","2"]\<close>: the pair \<^verbatim>\<open>["x","2"]\<close>, seen before
  \<^verbatim>\<open>["x","1"]\<close>, comes after it.
\<close>

lemma setup_example_unsorted:
  "setupMultiCategory L0 [] [tr_yx] axm =
     Inr (axm\<lparr>categories := [JArr [JStr ''y'', JStr ''1''], JArr [JStr ''x'', JStr ''1''],
                              JArr [JStr ''x'', JStr ''2'']],
              categoriesMap := Some [''y,1'' \<mapsto> JNum (Fin 0), ''x,1'' \<mapsto> JNum (Fin 1),
                                     ''x,2'' \<mapsto> JNum (Fin 2)]\<rparr>)"
  unfolding setupMultiCategory_def yx_loop
  by (simp only: sum.case prod.case yx_sort)
     (simp add: setCategoryIndex_def obj_get_def protoKeys_def axm_def ax0_def emptyCategories_def Let_def)

subsection \<open>A first key that names a member of \<^verbatim>\<open>Object.prototype\<close>\<close>

lemma proto_loop:
  "traceLoop L0 axm [tr_proto] (gatherTraceIndices axm []) ((0, Map.empty), (0, Map.empty), []) =
     Inr ((2, [''y'' \<mapsto> 0, ''x'' \<mapsto> 1]), (2, [''1'' \<mapsto> 0, ''2'' \<mapsto> 1]),
          [JArr [JStr ''y'', JStr ''1''], JArr [JStr ''constructor'', JStr ''1''],
           JArr [JStr ''y'', JStr ''2''], JArr [JStr ''x'', JStr ''1'']])"
  by (simp add: gatherTraceIndices_def axm_fields traceStep_def tr_proto_def traceLen_def
        L0_minRowLength pairStep_def js_nth_def see_def obj_in_def protoKeys_def Let_def upt_rec)

lemma toNumber_constructor: "toNumber L0 (JObj ''constructor'') = NaN"
  by (simp add: toNumber_def L0_def std_obj2str_def dec_numeric_def digit_val_def)

lemma pairKey0: "toKey L0 (pairItem (JArr [JStr a, JStr b]) 0) = a"
  and pairKey1: "toKey L0 (pairItem (JArr [JStr a, JStr b]) (Suc 0)) = b"
  by (simp_all add: pairItem_def js_nth_def)

lemma proto_rank0:
  "toNumber L0 (rankVal (2, [''y'' \<mapsto> 0, ''x'' \<mapsto> Suc 0]) ''y'') = Fin 0"
  "toNumber L0 (rankVal (2, [''y'' \<mapsto> 0, ''x'' \<mapsto> Suc 0]) ''x'') = Fin 1"
  "toNumber L0 (rankVal (2, [''y'' \<mapsto> 0, ''x'' \<mapsto> Suc 0]) ''constructor'') = NaN"
  "toNumber L0 (rankVal (2, [''1'' \<mapsto> 0, ''2'' \<mapsto> Suc 0]) ''1'') = Fin 0"
  "toNumber L0 (rankVal (2, [''1'' \<mapsto> 0, ''2'' \<mapsto> Suc 0]) ''2'') = Fin 1"
  by (simp_all add: rankVal_def toNumber_constructor protoKeys_def) (simp_all add: toNumber_def)

lemma proto_cmp:
  "pairCmp L0 (2, [''y'' \<mapsto> 0, ''x'' \<mapsto> 1]) (2, [''1'' \<mapsto> 0, ''2'' \<mapsto> 1])
     (JArr [JStr ''y'', JStr ''1'']) (JArr [JStr ''constructor'', JStr ''1'']) = Fin 0"
  "pairCmp L0 (2, [''y'' \<mapsto> 0, ''x'' \<mapsto> 1]) (2, [''1'' \<mapsto> 0, ''2'' \<mapsto> 1])
     (JArr [JStr ''constructor'', JStr ''1'']) (JArr [JStr ''y'', JStr ''2'']) = Fin (- 1)"
  "pairCmp L0 (2, [''y'' \<mapsto> 0, ''x'' \<mapsto> 1]) (2, [''1'' \<mapsto> 0, ''2'' \<mapsto> 1])
     (JArr [JStr ''y'', JStr ''2'']) (JArr [JStr ''x'', JStr ''1'']) = Fin (- 1)"
  by (simp_all add: pairCmp_def pairKey0 pairKey1 proto_rank0 nsub_def Let_def)

lemma proto_sort:
  "js_sort (pairCmp L0 (2, [''y'' \<mapsto> 0, ''x'' \<mapsto> 1]) (2, [''1'' \<mapsto> 0, ''2'' \<mapsto> 1]))
     [JArr [JStr ''y'', JStr ''1''], JArr [JStr ''constructor'', JStr ''1''],
      JArr [JStr ''y'', JStr ''2''], JArr [JStr ''x'', JStr ''1'']] =
     [JArr [JStr ''y'', JStr ''1''], JArr [JStr ''constructor'', JStr ''1''],
      JArr [JStr ''y'', JStr ''2''], JArr [JStr ''x'', JStr ''1'']]"
  using proto_cmp by (simp add: js_sort_def js_insert_def)

lemma proto_register:
  "snd (setCategoryIndices L0
     [JArr [JStr ''y'', JStr ''1''], JArr [JStr ''constructor'', JStr ''1''],
      JArr [JStr ''y'', JStr ''2''], JArr [JStr ''x'', JStr ''1'']] axm) =
   axm\<lparr>categories := [JArr [JStr ''y'', JStr ''1''], JArr [JStr ''constructor'', JStr ''1''],
                        JArr [JStr ''y'', JStr ''2''], JArr [JStr ''x'', JStr ''1'']],
        categoriesMap := Some [''y,1'' \<mapsto> JNum (Fin 0), ''constructor,1'' \<mapsto> JNum (Fin 1),
                               ''y,2'' \<mapsto> JNum (Fin 2), ''x,1'' \<mapsto> JNum (Fin 3)]\<rparr>"
  by (simp add: setCategoryIndex_def obj_get_def protoKeys_def axm_def ax0_def emptyCategories_def Let_def)

lemma proto_observed:
  "observedPairs L0 axm [tr_proto] (gatherTraceIndices axm []) =
     [JArr [JStr ''y'', JStr ''1''], JArr [JStr ''constructor'', JStr ''1''],
      JArr [JStr ''y'', JStr ''2''], JArr [JStr ''x'', JStr ''1'']]"
  using traceLoop_list[OF proto_loop] by simp

lemma proto_specRank:
  "specRank L0 [JArr [JStr ''y'', JStr ''1''], JArr [JStr ''constructor'', JStr ''1''],
                JArr [JStr ''y'', JStr ''2''], JArr [JStr ''x'', JStr ''1'']]
     (JArr [JStr ''y'', JStr ''1'']) = (0, 0)"
  "specRank L0 [JArr [JStr ''y'', JStr ''1''], JArr [JStr ''constructor'', JStr ''1''],
                JArr [JStr ''y'', JStr ''2''], JArr [JStr ''x'', JStr ''1'']]
     (JArr [JStr ''constructor'', JStr ''1'']) = (1, 0)"
  "specRank L0 [JArr [JStr ''y'', JStr ''1''], JArr [JStr ''constructor'', JStr ''1''],
                JArr [JStr ''y'', JStr ''2''], JArr [JStr ''x'', JStr ''1'']]
     (JArr [JStr ''y'', JStr ''2'']) = (0, 1)"
  "specRank L0 [JArr [JStr ''y'', JStr ''1''], JArr [JStr ''constructor'', JStr ''1''],
                JArr [JStr ''y'', JStr ''2''], JArr [JStr ''x'', JStr ''1'']]
     (JArr [JStr ''x'', JStr ''1'']) = (2, 0)"
  by (simp_all add: specRank_def appearanceRank_def firstKey_def secondKey_def)

lemma proto_spec_order:
  "sort_key (specRank L0 [JArr [JStr ''y'', JStr ''1''], JArr [JStr ''constructor'', JStr ''1''],
                          JArr [JStr ''y'', JStr ''2''], JArr [JStr ''x'', JStr ''1'']])
     [JArr [JStr ''y'', JStr ''1''], JArr [JStr ''constructor'', JStr ''1''],
      JArr [JStr ''y'', JStr ''2''], JArr [JStr ''x'', JStr ''1'']] =
     [JArr [JStr ''y'', JStr ''1''], JArr [JStr ''y'', JStr ''2''],
      JArr [JStr ''constructor'', JStr ''1''], JArr [JStr ''x'', JStr ''1'']]"
  by (simp add: sort_key_def proto_specRank less_eq_prod_def)


text \<open>
  C6: \<^verbatim>\<open>setupMultiCategory\<close> does not register the observed pairs in the order of
  (appearance-order rank of the first key, appearance-order rank of the second key) when
  a key names a member of \<^verbatim>\<open>Object.prototype\<close>. The maps of ranks are object literals:
  \<^verbatim>\<open>"constructor" in seen[0][1]\<close> holds before any key is seen, so that the key is given
  no rank, the value read for it is the inherited function, and the comparator of the
  sort has the difference \<^verbatim>\<open>NaN\<close> for it and falls back to the second keys. On a
  cleared axis the rows \<^verbatim>\<open>[["y","constructor","y","x"],["1","1","2","1"]]\<close> register
  \<^verbatim>\<open>["y","1"]\<close>, \<^verbatim>\<open>["constructor","1"]\<close>, \<^verbatim>\<open>["y","2"]\<close>, \<^verbatim>\<open>["x","1"]\<close> in this
  order, as the indices 0, 1, 2, 3, while the order of the appearance ranks is
  \<^verbatim>\<open>["y","1"]\<close>, \<^verbatim>\<open>["y","2"]\<close>, \<^verbatim>\<open>["constructor","1"]\<close>, \<^verbatim>\<open>["x","1"]\<close>: the pair
  \<^verbatim>\<open>["constructor","1"]\<close> is registered between two pairs of the first key
  \<^verbatim>\<open>"y"\<close>. For pairs whose keys name no such member the order is the stated one
  (\<open>setupMultiCategory_order_plain\<close>).
\<close>

theorem setupMultiCategory_inherited_key:
  "setupMultiCategory L0 [] [tr_proto] axm =
     Inr (axm\<lparr>categories := [JArr [JStr ''y'', JStr ''1''], JArr [JStr ''constructor'', JStr ''1''],
                              JArr [JStr ''y'', JStr ''2''], JArr [JStr ''x'', JStr ''1'']],
              categoriesMap := Some [''y,1'' \<mapsto> JNum (Fin 0), ''constructor,1'' \<mapsto> JNum (Fin 1),
                                     ''y,2'' \<mapsto> JNum (Fin 2), ''x,1'' \<mapsto> JNum (Fin 3)]\<rparr>) \<and>
   sort_key (specRank L0 (observedPairs L0 axm [tr_proto] (gatherTraceIndices axm [])))
     (observedPairs L0 axm [tr_proto] (gatherTraceIndices axm [])) =
     [JArr [JStr ''y'', JStr ''1''], JArr [JStr ''y'', JStr ''2''],
      JArr [JStr ''constructor'', JStr ''1''], JArr [JStr ''x'', JStr ''1'']]"
proof
  show "setupMultiCategory L0 [] [tr_proto] axm =
     Inr (axm\<lparr>categories := [JArr [JStr ''y'', JStr ''1''], JArr [JStr ''constructor'', JStr ''1''],
                              JArr [JStr ''y'', JStr ''2''], JArr [JStr ''x'', JStr ''1'']],
              categoriesMap := Some [''y,1'' \<mapsto> JNum (Fin 0), ''constructor,1'' \<mapsto> JNum (Fin 1),
                                     ''y,2'' \<mapsto> JNum (Fin 2), ''x,1'' \<mapsto> JNum (Fin 3)]\<rparr>)"
    unfolding setupMultiCategory_def proto_loop
    by (simp only: sum.case prod.case proto_sort proto_register)
  show "sort_key (specRank L0 (observedPairs L0 axm [tr_proto] (gatherTraceIndices axm [])))
     (observedPairs L0 axm [tr_proto] (gatherTraceIndices axm [])) =
     [JArr [JStr ''y'', JStr ''1''], JArr [JStr ''y'', JStr ''2''],
      JArr [JStr ''constructor'', JStr ''1''], JArr [JStr ''x'', JStr ''1'']]"
    by (simp only: proto_observed proto_spec_order)
qed


section \<open>Properties of the log conversion\<close>

lemma toLog_positive:
  assumes "toNumber L v = Fin a" "0 < a"
  shows "toLog L ax v clip = JNum (Fin (log 10 a))"
  using assms by (simp add: toLog_def log_def)

lemma toLog_clipped:
  assumes "toNumber L v = Fin a" "a \<le> 0"
      and "range ax = Some [JNum (Fin r0), JNum (Fin r1)]"
  shows "toLog L ax v True =
           JNum (Fin (min r0 r1 - (LOG_CLIP L - 1 / 2) * \<bar>r0 - r1\<bar>))"
proof -
  have "(r0 + r1 - 2 * LOG_CLIP L * \<bar>r0 - r1\<bar>) / 2 =
          min r0 r1 - (LOG_CLIP L - 1 / 2) * \<bar>r0 - r1\<bar>"
    by (cases "r0 \<le> r1") (simp_all add: min_def abs_if field_simps)
  then show ?thesis using assms
    by (simp add: toLog_def nle_def js_plus_def toNumber_def nsub_def Let_def)
qed

lemma toLog_not_clipped:
  assumes "toNumber L v = Fin a" "a \<le> 0"
      and "\<not> clip \<or> (\<forall>r. range ax = Some r \<longrightarrow> length r \<noteq> 2)"
  shows "toLog L ax v clip = BADNUM"
  using assms by (auto simp: toLog_def split: option.splits)

lemma toLog_nan: "toNumber L v = NaN \<Longrightarrow> toLog L ax v clip = BADNUM"
  by (simp add: toLog_def nle_def)

text \<open>
  C4: a value that is not positive is clipped to \<^verbatim>\<open>LOG_CLIP\<close> axis lengths below the
  middle of the range, which is half an axis length short of \<^verbatim>\<open>LOG_CLIP\<close> axis lengths
  beyond the lower edge. With the range \<^verbatim>\<open>[0, 2]\<close> and \<^verbatim>\<open>LOG_CLIP = 10\<close>,
  \<^verbatim>\<open>toLog(0, true)\<close> is -19, where 10 axis lengths beyond the lower edge is -20. With the
  range \<^verbatim>\<open>[1, 100]\<close> it is -939.5, a finite value below \<^verbatim>\<open>log10(1) = 0\<close>.
\<close>

theorem toLog_clip_half_length_short:
  "toLog L0 ax_log02 (JNum (Fin 0)) True = JNum (Fin (- 19)) \<and>
   min 0 2 - LOG_CLIP L0 * \<bar>0 - 2\<bar> = (- 20 :: real) \<and>
   toLog L0 ax_log1_100 (JNum (Fin 0)) True = JNum (Fin (- 939.5))"
  by (simp add: toLog_def nle_def js_plus_def toNumber_def nsub_def Let_def
        ax_log02_def ax_log1_100_def ax0_def L0_def)

section \<open>Properties of cleanRange\<close>

lemma getRange_setRange [simp]: "getRange ra (setRange ra r ax) = Some r"
  by (cases ra) (simp_all add: getRange_def setRange_def)

lemma cleanNumStep_first:
  assumes "- FP_SAFE L \<le> a" "a \<le> FP_SAFE L"
  shows "cleanNumStep L dflt 0 [JNum (Fin a), JNum (Fin a)] =
           Continue [JNum (Fin (a - max 1 (\<bar>a\<bar> / 1000000))), JNum (Fin (a + max 1 (\<bar>a\<bar> / 1000000)))]"
  using assms
  by (simp add: cleanNumStep_def isNumeric_def toNumber_def strict_eq_def nmax_def nsub_def
        js_plus_def Let_def max_def abs_if)

lemma cleanNumStep_second:
  assumes "- FP_SAFE L \<le> hi" "hi \<le> FP_SAFE L" "lo \<noteq> hi"
  shows "cleanNumStep L dflt (Suc 0) [JNum (Fin lo), JNum (Fin hi)] =
           Continue [JNum (Fin lo), JNum (Fin hi)]"
  using assms
  by (simp add: cleanNumStep_def isNumeric_def toNumber_def strict_eq_def Let_def)


lemma cleanRange_split_aux:
  assumes "ax_type ax \<noteq> Date"
      and "getRange ra ax = Some [JNum (Fin a), JNum (Fin a)]"
      and "- FP_SAFE L \<le> a" "a + max 1 (\<bar>a\<bar> / 1000000) \<le> FP_SAFE L"
  shows "getRange ra (cleanRange L ra optDflt ax) =
           Some [JNum (Fin (a - max 1 (\<bar>a\<bar> / 1000000))), JNum (Fin (a + max 1 (\<bar>a\<bar> / 1000000)))] \<and>
         a - max 1 (\<bar>a\<bar> / 1000000) < a + max 1 (\<bar>a\<bar> / 1000000)"
proof -
  let ?inc = "max 1 (\<bar>a\<bar> / 1000000)"
  have inc: "1 \<le> ?inc" by simp
  have s0: "cleanNumStep L d 0 [JNum (Fin a), JNum (Fin a)] =
              Continue [JNum (Fin (a - ?inc)), JNum (Fin (a + ?inc))]" for d
    using assms(3,4) inc by (intro cleanNumStep_first) linarith+
  have s1: "cleanNumStep L d (Suc 0) [JNum (Fin (a - ?inc)), JNum (Fin (a + ?inc))] =
              Continue [JNum (Fin (a - ?inc)), JNum (Fin (a + ?inc))]" for d
    using assms(3,4) inc by (intro cleanNumStep_second) linarith+
  show ?thesis
    using assms(1,2) inc by (simp add: cleanRange_def Let_def s0 s1)
qed

text \<open>
  Equal endpoints at or beyond \<^verbatim>\<open>FP_SAFE\<close>: the clamp to \<^verbatim>\<open>FP_SAFE\<close> takes part, and the
  endpoints still come out distinct.
\<close>

lemma cleanRange_equal_above:
  assumes "ax_type ax \<noteq> Date"
      and "getRange ra ax = Some [JNum (Fin a), JNum (Fin a)]"
      and "0 \<le> FP_SAFE L" "FP_SAFE L < a"
  shows "getRange ra (cleanRange L ra optDflt ax) =
           Some [JNum (Fin (FP_SAFE L - max 1 (FP_SAFE L / 1000000))),
                 JNum (Fin (FP_SAFE L + max 1 (FP_SAFE L / 1000000)))]"
  using assms
  by (simp add: cleanRange_def cleanNumStep_def isNumeric_def toNumber_def strict_eq_def
        nmax_def nsub_def js_plus_def Let_def max_def abs_if)

lemma cleanRange_equal_below:
  assumes "ax_type ax \<noteq> Date"
      and "getRange ra ax = Some [JNum (Fin a), JNum (Fin a)]"
      and "0 \<le> FP_SAFE L" "a < - FP_SAFE L"
  shows "getRange ra (cleanRange L ra optDflt ax) =
           Some [JNum (Fin (- FP_SAFE L - max 1 (FP_SAFE L / 1000000))),
                 JNum (Fin (- FP_SAFE L + max 1 (FP_SAFE L / 1000000)))]"
  using assms
  by (simp add: cleanRange_def cleanNumStep_def isNumeric_def toNumber_def strict_eq_def
        nmax_def nsub_def js_plus_def Let_def max_def abs_if)

lemma cleanRange_equal_clamped:
  assumes "ax_type ax \<noteq> Date"
      and "getRange ra ax = Some [JNum (Fin a), JNum (Fin a)]"
      and "- FP_SAFE L \<le> a" "a \<le> FP_SAFE L" "FP_SAFE L < a + max 1 (\<bar>a\<bar> / 1000000)"
  shows "getRange ra (cleanRange L ra optDflt ax) =
           Some [JNum (Fin (a - max 1 (\<bar>a\<bar> / 1000000))), JNum (Fin (FP_SAFE L))]"
proof -
  have inc: "1 \<le> max 1 (\<bar>a\<bar> / 1000000)" by simp
  have s0: "cleanNumStep L d 0 [JNum (Fin a), JNum (Fin a)] =
      Continue [JNum (Fin (a - max 1 (\<bar>a\<bar> / 1000000))), JNum (Fin (a + max 1 (\<bar>a\<bar> / 1000000)))]" for d
    using assms(3,4) by (intro cleanNumStep_first)
  have s1: "cleanNumStep L d (Suc 0)
              [JNum (Fin (a - max 1 (\<bar>a\<bar> / 1000000))), JNum (Fin (a + max 1 (\<bar>a\<bar> / 1000000)))] =
            Continue [JNum (Fin (a - max 1 (\<bar>a\<bar> / 1000000))), JNum (Fin (FP_SAFE L))]" for d
  proof -
    have "\<not> a + max 1 (\<bar>a\<bar> / 1000000) < - FP_SAFE L" using assms(3) inc by linarith
    moreover have "a - max 1 (\<bar>a\<bar> / 1000000) \<noteq> FP_SAFE L" using assms(4) inc by linarith
    ultimately show ?thesis using assms(5)
      by (simp add: cleanNumStep_def isNumeric_def toNumber_def strict_eq_def Let_def)
  qed
  show ?thesis using assms(1,2) by (simp add: cleanRange_def Let_def s0 s1)
qed

text \<open>
  C7: on an axis that is not a date axis, \<^verbatim>\<open>cleanRange\<close> splits a range of two equal
  numbers \<^verbatim>\<open>a\<close> into \<^verbatim>\<open>[a - inc, a + inc]\<close>, where \<^verbatim>\<open>inc\<close> is the larger of 1 and
  one millionth of \<^verbatim>\<open>|a|\<close>, provided \<^verbatim>\<open>a\<close> and \<^verbatim>\<open>a + inc\<close> lie within
  \<^verbatim>\<open>FP_SAFE\<close>. The two endpoints are distinct.
\<close>

theorem cleanRange_equal_split:
  assumes "ax_type ax \<noteq> Date"
      and "getRange ra ax = Some [JNum (Fin a), JNum (Fin a)]"
      and "- FP_SAFE L \<le> a" "a + max 1 (\<bar>a\<bar> / 1000000) \<le> FP_SAFE L"
  shows "getRange ra (cleanRange L ra optDflt ax) =
           Some [JNum (Fin (a - max 1 (\<bar>a\<bar> / 1000000))), JNum (Fin (a + max 1 (\<bar>a\<bar> / 1000000)))] \<and>
         a - max 1 (\<bar>a\<bar> / 1000000) < a + max 1 (\<bar>a\<bar> / 1000000)"
  using assms by (rule cleanRange_split_aux)

theorem cleanRange_equal_split_witness:
  "ax_type ax_lin \<noteq> Date \<and>
   getRange RangeAttr (ax_lin\<lparr>range := Some [JNum (Fin 5), JNum (Fin 5)]\<rparr>) =
     Some [JNum (Fin 5), JNum (Fin 5)] \<and>
   - FP_SAFE L0 \<le> 5 \<and> 5 + max 1 (\<bar>5\<bar> / 1000000) \<le> FP_SAFE L0 \<and>
   getRange RangeAttr (cleanRange L0 RangeAttr None (ax_lin\<lparr>range := Some [JNum (Fin 5), JNum (Fin 5)]\<rparr>)) =
     Some [JNum (Fin 4), JNum (Fin 6)]"
proof -
  have t: "ax_type (ax_lin\<lparr>range := Some [JNum (Fin 5), JNum (Fin 5)]\<rparr>) \<noteq> Date"
    by (simp add: ax_lin_def ax0_def)
  have g: "getRange RangeAttr (ax_lin\<lparr>range := Some [JNum (Fin 5), JNum (Fin 5)]\<rparr>) =
             Some [JNum (Fin 5), JNum (Fin 5)]"
    by (simp add: getRange_def)
  have lo: "- FP_SAFE L0 \<le> 5" by (simp add: L0_def)
  have hi: "5 + max 1 (\<bar>5\<bar> / 1000000) \<le> FP_SAFE L0" by (simp add: L0_def)
  have m: "max 1 (\<bar>5::real\<bar> / 1000000) = 1" by simp
  from cleanRange_equal_split[OF t g lo hi, of None]
  have "getRange RangeAttr (cleanRange L0 RangeAttr None (ax_lin\<lparr>range := Some [JNum (Fin 5), JNum (Fin 5)]\<rparr>)) =
     Some [JNum (Fin 4), JNum (Fin 6)]"
    unfolding m by simp
  then show ?thesis using g lo hi by (simp add: ax_lin_def ax0_def)
qed

text \<open>
  Two endpoints equal to \<^verbatim>\<open>FP_SAFE\<close> are not split symmetrically: the upper endpoint
  is clamped back to \<^verbatim>\<open>FP_SAFE\<close> in the second pass of the loop.
\<close>

theorem cleanRange_equal_split_counterexample:
  "getRange RangeAttr (cleanRange L0 RangeAttr None
      (ax_lin\<lparr>range := Some [JNum (Fin (FP_SAFE L0)), JNum (Fin (FP_SAFE L0))]\<rparr>)) =
     Some [JNum (Fin (FP_SAFE L0 - max 1 (\<bar>FP_SAFE L0\<bar> / 1000000))), JNum (Fin (FP_SAFE L0))] \<and>
   FP_SAFE L0 \<noteq> FP_SAFE L0 + max 1 (\<bar>FP_SAFE L0\<bar> / 1000000)"
proof -
  have t: "ax_type (ax_lin\<lparr>range := Some [JNum (Fin (FP_SAFE L0)), JNum (Fin (FP_SAFE L0))]\<rparr>) \<noteq> Date"
    by (simp add: ax_lin_def ax0_def)
  have g: "getRange RangeAttr (ax_lin\<lparr>range := Some [JNum (Fin (FP_SAFE L0)), JNum (Fin (FP_SAFE L0))]\<rparr>) =
             Some [JNum (Fin (FP_SAFE L0)), JNum (Fin (FP_SAFE L0))]"
    by (simp add: getRange_def)
  have pos: "0 < FP_SAFE L0" by (simp add: L0_def)
  have inc: "1 \<le> max 1 (\<bar>FP_SAFE L0\<bar> / 1000000)" by simp
  have "getRange RangeAttr (cleanRange L0 RangeAttr None
      (ax_lin\<lparr>range := Some [JNum (Fin (FP_SAFE L0)), JNum (Fin (FP_SAFE L0))]\<rparr>)) =
     Some [JNum (Fin (FP_SAFE L0 - max 1 (\<bar>FP_SAFE L0\<bar> / 1000000))), JNum (Fin (FP_SAFE L0))]"
    using pos inc by (intro cleanRange_equal_clamped[OF t g]) linarith+
  moreover have "FP_SAFE L0 \<noteq> FP_SAFE L0 + max 1 (\<bar>FP_SAFE L0\<bar> / 1000000)"
    using inc by linarith
  ultimately show ?thesis by blast
qed

section \<open>Properties of the pixel scale\<close>

lemma std_cleanNumber_num [simp]: "std_cleanNumber (JNum (Fin r)) = JNum (Fin r)"
  by (simp add: std_cleanNumber_def)

lemma L0_simps [simp]:
  "cleanNumber L0 = std_cleanNumber" "LOG_CLIP L0 = 10"
  "FP_SAFE L0 = 17976931348623157 * 10 ^ 288"
  "DFLTRANGEX L0 = [JNum (Fin (- 1)), JNum (Fin 6)]"
  by (simp_all add: L0_def)




lemma l2p_example:
  "l2p L0 (ax_lin010\<lparr>ax_offset := Fin 0, ax_length := Fin 800, ax_m := Fin 80, ax_b := Fin 0\<rparr>)
      (JNum (Fin 10)) = JNum (Fin 800)"
  by (simp add: l2p_def isNumeric_def toNumber_def d3_round2_def)



lemma setRange_fields [simp]:
  "ax_type (setRange ra r ax) = ax_type ax"
  "ax_letter (setRange ra r ax) = ax_letter ax"
  "calendar (setRange ra r ax) = calendar ax"
  "categoriesMap (setRange ra r ax) = categoriesMap ax"
  "categories (setRange ra r ax) = categories ax"
  "domain (setRange ra r ax) = domain ax"
  by (cases ra; simp add: setRange_def)+




lemma d3_round2_zero [simp]: "d3_round2 (Fin 0) = Fin 0"
  by (simp add: d3_round2_def)

lemma applyScale_fields [simp]:
  "ax_type (applyScale ly p q ax) = ax_type ax"
  "ax_letter (applyScale ly p q ax) = ax_letter ax"
  "calendar (applyScale ly p q ax) = calendar ax"
  "categoriesMap (applyScale ly p q ax) = categoriesMap ax"
  "categories (applyScale ly p q ax) = categories ax"
  "domain (applyScale ly p q ax) = domain ax"
  "range (applyScale ly p q ax) = range ax"
  "private_r (applyScale ly p q ax) = private_r ax"
  by (simp_all add: applyScale_def Let_def)




lemma scaleAttr_stable:
  "scaleAttr u (setRange (scaleAttr u ax) r ax) = scaleAttr u ax"
  by (simp add: scaleAttr_def setRange_def)















section \<open>Properties of makeCalcdata\<close>

lemma convert_D2C_linlog:
  assumes "ax_type ax = Linear \<or> ax_type ax = Log"
  shows "convert L D2C s a2 a3 ax = (Inr (cleanNumber L s), ax)"
  using assms by (auto simp: convert_def conv_linear_def conv_log_def)








text \<open>
  On the category axis with the one category \<^verbatim>\<open>"a"\<close>, a trace with \<^verbatim>\<open>x0 = "b"\<close>
  and the declared length 3 that has no opposing data gives 1, 2, 3: the start is
  entered in the registry and the sequence starts at its index.
\<close>

lemma ax_cat_reg:
  "ax_type ax_cat = Category" "categoriesMap ax_cat = Some [''a'' \<mapsto> JNum (Fin 0)]"
  "categories ax_cat = [JStr ''a'']"
  by (simp_all add: ax_cat_def ax0_def)

lemma tr_decl_fields:
  "tr_field tr_decl l = None" "tr_start tr_decl X = Some (JStr ''b'')"
  "tr_delta tr_decl X = None" "tr_length tr_decl = Some 3"
  by (simp_all add: tr_decl_def)

lemma makeCalcdata_declared_length:
  "makeCalcdata L0 tr_decl X ax_cat =
     (Inr [JNum (Fin 1), JNum (Fin 2), JNum (Fin 3)],
      ax_cat\<lparr>categories := [JStr ''a'', JStr ''b''],
             categoriesMap := Some [''a'' \<mapsto> JNum (Fin 0), ''b'' \<mapsto> JNum (Fin 1)]\<rparr>)"
  by (simp add: makeCalcdata_def Let_def tr_decl_fields ax_cat_reg convert_def
        setCategoryIndex_def obj_get_def protoKeys_def oppositeLen_def js_plus_def toNumber_def
        upt_rec)



section \<open>Properties of the conversion table\<close>

lemma dec0: "dec_of_nat 0 = ''0''" "dec_of_nat 4 = ''4''" "dec_of_nat 12 = ''12''"
  by (simp_all add: dec_of_nat.simps)

lemma num2str_L0_small:
  "num2str L0 (Fin 0) = ''0''" "num2str L0 (Fin 4) = ''4''"
  by (simp_all add: L0_def std_num2str_def dec_of_nat.simps)





















section \<open>Failure of the conversions and of setScale\<close>















end
